theory Spec2Isabelle
  imports Complex_Main "HOL-Library.AList"
begin

section \<open>Python values, exceptions and built-ins\<close>

text \<open>
  The extension is a single Python class, \<open>AIWriterExtension\<close>. Its methods raise
  and catch exceptions, read and write one JSON file, show dialogs, issue one HTTP
  request and write into the document. The model makes each of these explicit.

  Strings are HOL strings; a character stands for a code point below 256 of a Python
  \<open>str\<close>. Floating-point numbers are kept abstract: the type variable \<open>'f\<close> stands
  for Python's \<open>float\<close>, and the conversions to and from it are parameters.
\<close>

datatype exn =
    KeyError string
  | ValueError string
  | TypeError string
  | AttributeError string
  | IndexError string
  | OverflowError string
  | HTTPError nat string
  | URLError string

text \<open>Decimal rendering of a natural number, as \<open>str(n)\<close> gives it.\<close>

fun str_nat :: "nat \<Rightarrow> string" where
  "str_nat n =
     (if n < 10 then [char_of (48 + n)]
      else str_nat (n div 10) @ [char_of (48 + n mod 10)])"

declare str_nat.simps [simp del]

definition str_int :: "int \<Rightarrow> string" where
  "str_int i = (if i < 0 then CHR ''-'' # str_nat (nat (- i)) else str_nat (nat i))"

text \<open>
  \<open>repr\<close> of a string. The quote is the single quote, unless the string holds a single
  quote and no double quote. The quote and the backslash are escaped with a backslash,
  tab, newline and carriage return are written as a backslash and \<open>t\<close>, \<open>n\<close> or \<open>r\<close>,
  and every other character that is not printable as a backslash, \<open>x\<close> and two
  hexadecimal digits. Below 256 the characters that are not printable are 0 to 31,
  127 to 160 and 173.
\<close>

definition py_printable :: "char \<Rightarrow> bool" where
  "py_printable c =
     (let n = (of_char c :: nat)
      in 32 \<le> n \<and> \<not> (127 \<le> n \<and> n \<le> 160) \<and> n \<noteq> 173)"

definition hex_digit :: "nat \<Rightarrow> char" where
  "hex_digit n = ''0123456789abcdef'' ! n"

definition repr_char :: "char \<Rightarrow> char \<Rightarrow> string" where
  "repr_char q c =
     (if c = q \<or> c = CHR 0x5C then [CHR 0x5C, c]
      else if c = CHR 0x09 then [CHR 0x5C, CHR ''t'']
      else if c = CHR 0x0A then [CHR 0x5C, CHR ''n'']
      else if c = CHR 0x0D then [CHR 0x5C, CHR ''r'']
      else if py_printable c then [c]
      else [CHR 0x5C, CHR ''x'', hex_digit (of_char c div 16), hex_digit (of_char c mod 16)])"

definition py_repr :: "string \<Rightarrow> string" where
  "py_repr s =
     (let q = (if CHR 0x27 \<in> set s \<and> CHR 0x22 \<notin> set s then CHR 0x22 else CHR 0x27)
      in [q] @ concat (map (repr_char q) s) @ [q])"

text \<open>
  \<open>str(e)\<close>: a \<open>KeyError\<close> prints the \<open>repr\<close> of its key (the constructor carries
  that text: \<open>'max_tokens'\<close> for a string key, \<open>0\<close> for the index 0), urllib's
  \<open>HTTPError\<close> prints \<open>HTTP Error <code>: <msg>\<close>, its \<open>URLError\<close> prints
  \<open><urlopen error <reason>>\<close>, the others print their message.
\<close>

fun str_exn :: "exn \<Rightarrow> string" where
  "str_exn (KeyError k) = k"
| "str_exn (ValueError m) = m"
| "str_exn (TypeError m) = m"
| "str_exn (AttributeError m) = m"
| "str_exn (IndexError m) = m"
| "str_exn (OverflowError m) = m"
| "str_exn (HTTPError code m) = ''HTTP Error '' @ str_nat code @ '': '' @ m"
| "str_exn (URLError r) = ''<urlopen error '' @ r @ ''>''"

text \<open>
  The values a setting holds: the spec's data model has string, integer and float
  settings, and these are the values the class itself writes.
\<close>

datatype 'f pyval = VStr string | VInt int | VFloat 'f

text \<open>JSON values, as \<open>json.loads\<close> returns them for the endpoint's response.\<close>

datatype 'f json =
    JNull
  | JBool bool
  | JInt int
  | JFloat 'f
  | JStr string
  | JArr "'f json list"
  | JObj "(string \<times> 'f json) list"

text \<open>
  The library functions whose results the model does not compute: the float
  conversions, \<open>str.upper\<close> (its result can leave the code points below 256) and
  \<open>json.loads\<close>. \<open>None\<close> from \<open>float_of_str\<close> is Python's \<open>ValueError\<close>.
\<close>

record 'f builtins =
  float_of_str :: "string \<Rightarrow> 'f option"
  float_of_int :: "int \<Rightarrow> exn + 'f"
  int_of_float :: "'f \<Rightarrow> exn + int"
  str_of_float :: "'f \<Rightarrow> string"
  str_upper :: "string \<Rightarrow> string"
  json_loads :: "string \<Rightarrow> exn + 'f json"

text \<open>
  \<open>str.strip()\<close> removes whitespace at both ends. Below 256 the whitespace code points
  are 9 to 13, 28 to 32, 133 and 160.
\<close>

definition py_whitespace :: "char list" where
  "py_whitespace =
     [CHR 0x09, CHR 0x0A, CHR 0x0B, CHR 0x0C, CHR 0x0D, CHR 0x1C, CHR 0x1D, CHR 0x1E,
      CHR 0x1F, CHR 0x20, CHR 0x85, CHR 0xA0]"

definition py_isspace :: "char \<Rightarrow> bool" where
  "py_isspace c = (c \<in> set py_whitespace)"

definition py_strip :: "string \<Rightarrow> string" where
  "py_strip s = rev (dropWhile py_isspace (rev (dropWhile py_isspace s)))"

text \<open>
  \<open>str.isdigit()\<close>: a non-empty string of digit characters. Below 256 these are the
  ten decimal digits and the superscripts 1, 2 and 3 (0xB9, 0xB2, 0xB3), which
  \<open>int()\<close> does not accept.
\<close>

definition py_decimals :: "char list" where
  "py_decimals = ''0123456789''"

definition py_isdecimal_char :: "char \<Rightarrow> bool" where
  "py_isdecimal_char c = (c \<in> set py_decimals)"

definition py_isdigit_char :: "char \<Rightarrow> bool" where
  "py_isdigit_char c = (py_isdecimal_char c \<or> c \<in> set [CHR 0xB2, CHR 0xB3, CHR 0xB9])"

definition py_isdigit :: "string \<Rightarrow> bool" where
  "py_isdigit s = (s \<noteq> [] \<and> list_all py_isdigit_char s)"

definition digit_value :: "char \<Rightarrow> nat" where
  "digit_value c = of_char c - 48"

text \<open>
  The digits of an integer literal as \<open>int(s)\<close> reads them: decimal digits, with single
  underscores allowed between two digits. The flag says that the previous character
  was a digit.

  \<open>int(s)\<close> skips whitespace at both ends, but not the whitespace of \<open>strip\<close>: it
  skips the code points 9 to 13 and 32, and 133 and 160 (which it first turns into
  spaces); 28 to 31 make the literal invalid. After an optional sign it reads the run
  of digits and underscores; a run of more than 4300 digits is refused (the limit of
  CPython 3.11 and later); anything left after the run makes the literal invalid.
\<close>

definition int_whitespace :: "char list" where
  "int_whitespace =
     [CHR 0x09, CHR 0x0A, CHR 0x0B, CHR 0x0C, CHR 0x0D, CHR 0x20, CHR 0x85, CHR 0xA0]"

definition int_isspace :: "char \<Rightarrow> bool" where
  "int_isspace c = (c \<in> set int_whitespace)"

definition int_strip :: "string \<Rightarrow> string" where
  "int_strip s = rev (dropWhile int_isspace (rev (dropWhile int_isspace s)))"

definition digit_run :: "string \<Rightarrow> string" where
  "digit_run s = takeWhile (\<lambda>c. py_isdecimal_char c \<or> c = CHR ''_'') s"

definition count_digits :: "string \<Rightarrow> nat" where
  "count_digits s = length (filter py_isdecimal_char s)"

fun parse_digits :: "nat \<Rightarrow> bool \<Rightarrow> string \<Rightarrow> nat option" where
  "parse_digits acc prev [] = (if prev then Some acc else None)"
| "parse_digits acc prev (c # cs) =
     (if py_isdecimal_char c then parse_digits (10 * acc + digit_value c) True cs
      else if c = CHR ''_'' \<and> prev then parse_digits acc False cs
      else None)"

definition invalid_literal :: "string \<Rightarrow> exn" where
  "invalid_literal s = ValueError (''invalid literal for int() with base 10: '' @ py_repr s)"

definition too_many_digits :: "nat \<Rightarrow> exn" where
  "too_many_digits n =
     ValueError (''Exceeds the limit (4300 digits) for integer string conversion: value has ''
                 @ str_nat n
                 @ '' digits; use sys.set_int_max_str_digits() to increase the limit'')"

definition int_of_str :: "string \<Rightarrow> exn + int" where
  "int_of_str s =
     (let t = int_strip s;
          negative = (t \<noteq> [] \<and> hd t = CHR ''-'');
          body = (if t \<noteq> [] \<and> (hd t = CHR ''+'' \<or> hd t = CHR ''-'') then tl t else t);
          run = digit_run body
      in case parse_digits 0 False run of
           None \<Rightarrow> Inl (invalid_literal s)
         | Some n \<Rightarrow>
             if 4300 < count_digits run then Inl (too_many_digits (count_digits run))
             else if run \<noteq> body then Inl (invalid_literal s)
             else Inr (if negative then - int n else int n))"

text \<open>\<open>int(v)\<close>, \<open>float(v)\<close> and \<open>str(v)\<close> of a setting's value.\<close>

fun py_int :: "'f builtins \<Rightarrow> 'f pyval \<Rightarrow> exn + int" where
  "py_int B (VStr s) = int_of_str s"
| "py_int B (VInt i) = Inr i"
| "py_int B (VFloat x) = int_of_float B x"

fun py_float :: "'f builtins \<Rightarrow> 'f pyval \<Rightarrow> exn + 'f" where
  "py_float B (VStr s) =
     (case float_of_str B s of
        None \<Rightarrow> Inl (ValueError (''could not convert string to float: '' @ py_repr s))
      | Some x \<Rightarrow> Inr x)"
| "py_float B (VInt i) = float_of_int B i"
| "py_float B (VFloat x) = Inr x"

fun py_str :: "'f builtins \<Rightarrow> 'f pyval \<Rightarrow> string" where
  "py_str B (VStr s) = s"
| "py_str B (VInt i) = str_int i"
| "py_str B (VFloat x) = str_of_float B x"

section \<open>The world the extension acts on\<close>

text \<open>
  The settings file \<open>aiwriter.json\<close> in the user's configuration directory, by what
  \<open>os.path.exists\<close> and \<open>json.load\<close> make of it: it does not exist; its text is not
  JSON (\<open>JSONDecodeError\<close>; an empty or truncated file is of this kind); it holds a
  JSON object (a Python dict, in the order of its keys); or it holds JSON of another
  kind.
\<close>

datatype json_kind = KList | KStr | KInt | KFloat | KBool | KNull

fun type_name :: "json_kind \<Rightarrow> string" where
  "type_name KList = ''list''"
| "type_name KStr = ''str''"
| "type_name KInt = ''int''"
| "type_name KFloat = ''float''"
| "type_name KBool = ''bool''"
| "type_name KNull = ''NoneType''"

datatype 'f settings_file =
    Missing
  | Corrupt
  | Holds_object "(string \<times> 'f pyval) list"
  | Holds_other json_kind

text \<open>
  What happens when \<open>set_config\<close> writes the file (source lines 225 and 226):
  \<open>open(path, 'w')\<close> and \<open>json.dump\<close> both succeed; \<open>open\<close> raises \<open>IOError\<close> and
  the file is not touched; or \<open>open\<close> succeeds, which truncates the file, and an
  \<open>IOError\<close> of \<open>json.dump\<close> or of closing the file leaves it empty or cut short.
\<close>

datatype write_outcome = Write_completes | Open_fails | Dump_fails

text \<open>The request \<open>process_text\<close> sends: the URL, the bearer header and the payload.\<close>

record 'f request =
  url :: string
  authorization :: string
  content_type :: string
  payload_model :: "'f pyval"
  assistant_text :: string
  user_text :: string
  max_completion_tokens :: int
  temperature :: "'f"

text \<open>
  The state: the settings file, whether opening it for reading succeeds (a permission
  of the file, which writing it does not change) and what a write does; whether the
  desktop has a current component; the string of the view cursor; the string of the
  first range of the controller's selection; the message boxes shown so far, as
  (title, message), oldest first; the requests passed to \<open>urlopen\<close> so far.
\<close>

record 'f world =
  settings_file :: "'f settings_file"
  settings_readable :: bool
  settings_write :: write_outcome
  document_open :: bool
  view_cursor :: string
  selection_range :: string
  dialogs :: "(string \<times> string) list"
  http_log :: "'f request list"

section \<open>The settings store\<close>

text \<open>
  \<open>get_config\<close> (source lines 158 to 189): a missing file gives the default; so does a
  file whose reading raises \<open>IOError\<close> or \<open>JSONDecodeError\<close>, the two classes the
  handler names; otherwise \<open>config_data.get(key, default)\<close>, which raises
  \<open>AttributeError\<close> when the JSON is not an object.
\<close>

definition get_config :: "'f world \<Rightarrow> string \<Rightarrow> 'f pyval \<Rightarrow> exn + 'f pyval" where
  "get_config w key dflt =
     (case settings_file w of
        Missing \<Rightarrow> Inr dflt
      | Corrupt \<Rightarrow> Inr dflt
      | Holds_object config_data \<Rightarrow>
          if settings_readable w
          then Inr (case map_of config_data key of None \<Rightarrow> dflt | Some v \<Rightarrow> v)
          else Inr dflt
      | Holds_other k \<Rightarrow>
          if settings_readable w
          then Inl (AttributeError
                      (py_repr (type_name k) @ '' object has no attribute '' @ py_repr ''get''))
          else Inr dflt)"

text \<open>
  \<open>set_config\<close> (source lines 191 to 229): load the existing object, or start from the
  empty one when the file is missing or its reading raises \<open>IOError\<close> or
  \<open>JSONDecodeError\<close>; assign the key (a dict keeps the position of a key it has and
  appends a new one; the assignment raises \<open>TypeError\<close> on JSON that is not an object);
  write the object back. An \<open>IOError\<close> of the write is caught and only printed: the
  file is as it was when \<open>open\<close> raised it, and truncated when it came later.
\<close>

definition setitem_message :: "json_kind \<Rightarrow> string" where
  "setitem_message k =
     (if k = KList then ''list indices must be integers or slices, not str''
      else py_repr (type_name k) @ '' object does not support item assignment'')"

definition load_for_update :: "'f world \<Rightarrow> json_kind + (string \<times> 'f pyval) list" where
  "load_for_update w =
     (case settings_file w of
        Missing \<Rightarrow> Inr []
      | Corrupt \<Rightarrow> Inr []
      | Holds_object config_data \<Rightarrow> Inr (if settings_readable w then config_data else [])
      | Holds_other k \<Rightarrow> if settings_readable w then Inl k else Inr [])"

definition write_settings :: "'f world \<Rightarrow> (string \<times> 'f pyval) list \<Rightarrow> 'f world" where
  "write_settings w config_data =
     (case settings_write w of
        Write_completes \<Rightarrow> w\<lparr>settings_file := Holds_object config_data\<rparr>
      | Open_fails \<Rightarrow> w
      | Dump_fails \<Rightarrow> w\<lparr>settings_file := Corrupt\<rparr>)"

definition set_config :: "'f world \<Rightarrow> string \<Rightarrow> 'f pyval \<Rightarrow> (exn + unit) \<times> 'f world" where
  "set_config w key v =
     (case load_for_update w of
        Inl k \<Rightarrow> (Inl (TypeError (setitem_message k)), w)
      | Inr config_data \<Rightarrow> (Inr (), write_settings w (AList.update key v config_data)))"

section \<open>The environment: language table, dialogs and the endpoint\<close>

text \<open>
  What the endpoint does with a request, as urllib sees it once redirects are followed:
  no reply at all (with the reason), or a status, a reason phrase and a body.
\<close>

datatype reply = No_reply string | Reply nat string string

text \<open>What the user does with the settings dialog and with the translation dialog.\<close>

datatype settings_action = Settings_cancel | Settings_ok string string string string

datatype translation_action = Translation_cancel | Translation_ok string

text \<open>
  The environment of one command: the language table \<open>self.lang\<close> (read from the
  extension's \<open>lang/*.json\<close>, taken as a parameter here), the library functions, the
  endpoint, and the user's action in each dialog. For \<open>Settings_ok\<close> the four strings
  are the texts of the fields for the API key, the model, \<open>max_tokens\<close> and the
  temperature when the dialog is confirmed.
\<close>

record 'f env =
  lang :: "string \<Rightarrow> string option"
  builtins :: "'f builtins"
  endpoint :: "'f request \<Rightarrow> reply"
  settings_dialog :: settings_action
  translation_dialog :: translation_action

text \<open>Sequencing of computations that may raise.\<close>

definition bind_exn :: "exn + 'a \<Rightarrow> ('a \<Rightarrow> exn + 'b) \<Rightarrow> exn + 'b" where
  "bind_exn r f = (case r of Inl e \<Rightarrow> Inl e | Inr a \<Rightarrow> f a)"

definition lift_exn :: "exn + 'a \<Rightarrow> 'w \<Rightarrow> ('a \<Rightarrow> (exn + 'b) \<times> 'w) \<Rightarrow> (exn + 'b) \<times> 'w" where
  "lift_exn r w f = (case r of Inl e \<Rightarrow> (Inl e, w) | Inr a \<Rightarrow> f a)"

definition and_then :: "(exn + 'a) \<times> 'w \<Rightarrow> ('a \<Rightarrow> 'w \<Rightarrow> (exn + 'b) \<times> 'w) \<Rightarrow> (exn + 'b) \<times> 'w" where
  "and_then r f = (case r of (Inl e, w) \<Rightarrow> (Inl e, w) | (Inr a, w) \<Rightarrow> f a w)"

text \<open>\<open>self.lang[k]\<close> and \<open>result[k]\<close>: subscripting a dict raises \<open>KeyError\<close>.\<close>

definition lang_item :: "(string \<Rightarrow> string option) \<Rightarrow> string \<Rightarrow> exn + string" where
  "lang_item L k = (case L k of None \<Rightarrow> Inl (KeyError (py_repr k)) | Some v \<Rightarrow> Inr v)"

definition dict_item :: "(string \<times> 'v) list \<Rightarrow> string \<Rightarrow> exn + 'v" where
  "dict_item d k = (case map_of d k of None \<Rightarrow> Inl (KeyError (py_repr k)) | Some v \<Rightarrow> Inr v)"

text \<open>
  \<open>show_dialog\<close> (source lines 327 to 353) builds a message box and runs it; every call
  in the class leaves the type at its default, an error box.
\<close>

definition show_dialog :: "'f world \<Rightarrow> string \<Rightarrow> string \<Rightarrow> 'f world" where
  "show_dialog w title message = w\<lparr>dialogs := dialogs w @ [(title, message)]\<rparr>"

text \<open>\<open>self.show_dialog(self.lang["error"], self.lang[k])\<close>, its arguments left to right.\<close>

definition show_error :: "'f env \<Rightarrow> 'f world \<Rightarrow> string \<Rightarrow> (exn + unit) \<times> 'f world" where
  "show_error E w k =
     lift_exn (lang_item (lang E) ''error'') w (\<lambda>title.
     lift_exn (lang_item (lang E) k) w (\<lambda>message.
       (Inr (), show_dialog w title message)))"

section \<open>The completion client\<close>

text \<open>
  The dict \<open>prompt_map\<close> of \<open>process_text\<close> (source lines 253 to 259). The dict display
  evaluates all five f-strings, in this order, whatever the command is.
\<close>

definition prompt_map :: "(string \<Rightarrow> string option) \<Rightarrow> string \<Rightarrow> string \<Rightarrow> exn + (string \<times> string) list" where
  "prompt_map L text lng =
     bind_exn (lang_item L ''prompt_complete'') (\<lambda>pc.
     bind_exn (lang_item L ''prompt_summarize'') (\<lambda>ps.
     bind_exn (lang_item L ''prompt_improve'') (\<lambda>pim.
     bind_exn (lang_item L ''prompt_expand'') (\<lambda>pe.
     bind_exn (lang_item L ''prompt_translate'') (\<lambda>pt.
       Inr [(''complete'', pc @ '': '' @ text),
            (''summarize'', ps @ '': '' @ text),
            (''improve'', pim @ '': '' @ text),
            (''expand'', pe @ '': '' @ text),
            (''translate'', pt @ '' '' @ lng @ '': '' @ text)])))))"

text \<open>
  The spec's Prompt Builder, \<open>build_prompt(command, text, target_language)\<close>: the
  lookup of the command in \<open>prompt_map\<close>, where \<open>None\<close> is the outcome of the test
  \<open>command not in prompt_map\<close> (source lines 260 and 261).
\<close>

definition build_prompt :: "(string \<Rightarrow> string option) \<Rightarrow> string \<Rightarrow> string \<Rightarrow> string \<Rightarrow> exn + string option" where
  "build_prompt L command text lng =
     bind_exn (prompt_map L text lng) (\<lambda>pm. Inr (map_of pm command))"

definition API_URL :: string where
  "API_URL = ''https://api.openai.com/v1/chat/completions''"

text \<open>
  The headers and the payload (source lines 263 to 292), built before the \<open>try\<close>: an
  exception here leaves \<open>process_text\<close>.
\<close>

definition build_request :: "'f env \<Rightarrow> 'f world \<Rightarrow> string \<Rightarrow> exn + 'f request" where
  "build_request E w prompt =
     bind_exn (get_config w ''openai_api_key'' (VStr [])) (\<lambda>openai_api_key.
     bind_exn (get_config w ''model'' (VStr ''gpt-4o-mini'')) (\<lambda>m.
     bind_exn (lang_item (lang E) ''prompt_assistant'') (\<lambda>pa.
     bind_exn (bind_exn (get_config w ''max_tokens'' (VStr ''1000'')) (py_int (builtins E))) (\<lambda>mt.
     bind_exn (bind_exn (get_config w ''temperature'' (VStr ''0.5'')) (py_float (builtins E))) (\<lambda>t.
       Inr \<lparr>url = API_URL,
            authorization = ''Bearer '' @ py_str (builtins E) openai_api_key,
            content_type = ''application/json'',
            payload_model = m,
            assistant_text = pa,
            user_text = prompt,
            max_completion_tokens = mt,
            temperature = t\<rparr>)))))"

text \<open>
  \<open>urllib.request.urlopen\<close> with the default opener: a reply whose status is outside
  200 to 299 goes to the error handlers, and the default handler raises \<open>HTTPError\<close>
  with the status and the reason phrase; only a reply from 200 to 299 is returned as a
  response object. No reply is a \<open>URLError\<close>.
\<close>

definition urlopen :: "reply \<Rightarrow> exn + nat \<times> string" where
  "urlopen r =
     (case r of
        No_reply reason \<Rightarrow> Inl (URLError reason)
      | Reply status msg body \<Rightarrow>
          if 200 \<le> status \<and> status < 300 then Inr (status, body)
          else Inl (HTTPError status msg))"

text \<open>
  Subscripting and \<open>.strip()\<close> on what \<open>json.loads\<close> returned, with the messages of
  CPython 3.11 and later.
\<close>

fun json_type_name :: "'f json \<Rightarrow> string" where
  "json_type_name JNull = ''NoneType''"
| "json_type_name (JBool b) = ''bool''"
| "json_type_name (JInt i) = ''int''"
| "json_type_name (JFloat x) = ''float''"
| "json_type_name (JStr s) = ''str''"
| "json_type_name (JArr xs) = ''list''"
| "json_type_name (JObj kvs) = ''dict''"

definition not_subscriptable :: "'f json \<Rightarrow> exn" where
  "not_subscriptable j = TypeError (py_repr (json_type_name j) @ '' object is not subscriptable'')"

fun getitem_key :: "'f json \<Rightarrow> string \<Rightarrow> exn + 'f json" where
  "getitem_key (JObj kvs) k =
     (case map_of kvs k of None \<Rightarrow> Inl (KeyError (py_repr k)) | Some v \<Rightarrow> Inr v)"
| "getitem_key (JArr xs) k = Inl (TypeError ''list indices must be integers or slices, not str'')"
| "getitem_key (JStr s) k =
     Inl (TypeError (''string indices must be integers, not '' @ py_repr ''str''))"
| "getitem_key j k = Inl (not_subscriptable j)"

fun getitem_0 :: "'f json \<Rightarrow> exn + 'f json" where
  "getitem_0 (JArr []) = Inl (IndexError ''list index out of range'')"
| "getitem_0 (JArr (x # xs)) = Inr x"
| "getitem_0 (JStr []) = Inl (IndexError ''string index out of range'')"
| "getitem_0 (JStr (c # cs)) = Inr (JStr [c])"
| "getitem_0 (JObj kvs) = Inl (KeyError ''0'')"
| "getitem_0 j = Inl (not_subscriptable j)"

fun strip_method :: "'f json \<Rightarrow> exn + string" where
  "strip_method (JStr s) = Inr (py_strip s)"
| "strip_method j =
     Inl (AttributeError (py_repr (json_type_name j) @ '' object has no attribute '' @ py_repr ''strip''))"

text \<open>\<open>response_data["choices"][0]["message"]["content"].strip()\<close> (source line 300).\<close>

definition response_content :: "'f json \<Rightarrow> exn + string" where
  "response_content response_data =
     bind_exn (getitem_key response_data ''choices'') (\<lambda>choices.
     bind_exn (getitem_0 choices) (\<lambda>choice.
     bind_exn (getitem_key choice ''message'') (\<lambda>message.
     bind_exn (getitem_key message ''content'') strip_method)))"

text \<open>
  The handler of the \<open>try\<close> (source lines 303 and 304): a dialog with \<open>str(e)\<close>, and
  \<open>process_text\<close> returns \<open>None\<close>. The title is looked up inside the handler.
\<close>

definition report_exception :: "'f env \<Rightarrow> 'f world \<Rightarrow> exn \<Rightarrow> (exn + string option) \<times> 'f world" where
  "report_exception E w e =
     lift_exn (lang_item (lang E) ''error'') w (\<lambda>title.
       (Inr None, show_dialog w title (str_exn e)))"

text \<open>
  The \<open>try\<close> block (source lines 293 to 302): the request is handed to \<open>urlopen\<close>; a
  response with status 200 is parsed and its content returned; a response with another
  status has its body shown in a dialog. Every exception raised inside the block,
  including the \<open>KeyError\<close> of a missing title, reaches the handler.
\<close>

definition round_trip :: "'f env \<Rightarrow> 'f world \<Rightarrow> 'f request \<Rightarrow> (exn + string option) \<times> 'f world" where
  "round_trip E w req =
     (let w1 = w\<lparr>http_log := http_log w @ [req]\<rparr> in
      case urlopen (endpoint E req) of
        Inl e \<Rightarrow> report_exception E w1 e
      | Inr (status, body) \<Rightarrow>
          if status = 200 then
            (case bind_exn (json_loads (builtins E) body) response_content of
               Inl e \<Rightarrow> report_exception E w1 e
             | Inr content \<Rightarrow> (Inr (Some content), w1))
          else
            (case lang_item (lang E) ''error'' of
               Inl e \<Rightarrow> report_exception E w1 e
             | Inr title \<Rightarrow> (Inr None, show_dialog w1 title body)))"

text \<open>\<open>process_text\<close> (source lines 242 to 304).\<close>

definition process_text :: "'f env \<Rightarrow> 'f world \<Rightarrow> string \<Rightarrow> string \<Rightarrow> string \<Rightarrow> (exn + string option) \<times> 'f world" where
  "process_text E w text command lng =
     lift_exn (prompt_map (lang E) text lng) w (\<lambda>pm.
       case map_of pm command of
         None \<Rightarrow> (Inr None, w)
       | Some prompt \<Rightarrow>
           lift_exn (build_request E w prompt) w (\<lambda>req. round_trip E w req))"

section \<open>The result inserter\<close>

definition newline :: string where
  "newline = [CHR 0x0A]"

text \<open>
  \<open>insert_text\<close> (source lines 306 to 325). The language is read from the settings for
  \<open>translate\<close> only and formatted by the f-string, as \<open>str\<close> does.
\<close>

definition start_marker :: "string \<Rightarrow> string \<Rightarrow> string \<Rightarrow> string" where
  "start_marker block_start label language =
     ''[---'' @ block_start @ '' '' @ label @ '' '' @ language @ ''---]''"

definition end_marker :: "string \<Rightarrow> string \<Rightarrow> string \<Rightarrow> string" where
  "end_marker block_end label language =
     ''[/---'' @ block_end @ '' '' @ label @ '' '' @ language @ ''---]''"

definition insert_text :: "'f env \<Rightarrow> 'f world \<Rightarrow> string \<Rightarrow> string \<Rightarrow> string \<Rightarrow> (exn + unit) \<times> 'f world" where
  "insert_text E w new_text selection command =
     lift_exn (if command = ''translate''
               then bind_exn (get_config w ''language'' (VStr [])) (\<lambda>v. Inr (py_str (builtins E) v))
               else Inr []) w (\<lambda>language.
     lift_exn (lang_item (lang E) (''command_'' @ command)) w (\<lambda>label.
     lift_exn (lang_item (lang E) ''block_start'') w (\<lambda>block_start.
     lift_exn (lang_item (lang E) ''block_end'') w (\<lambda>block_end.
       (Inr (),
        w\<lparr>view_cursor :=
            selection @ newline @ newline
            @ start_marker block_start (str_upper (builtins E) label) language @ newline
            @ new_text @ newline
            @ end_marker block_end (str_upper (builtins E) label) language @ newline @ newline\<rparr>)))))"

text \<open>
  How often a text occurs in another, counted at every position: the measure for
  "exactly one marker" in the inserter's output.
\<close>

fun occurrences :: "'a list \<Rightarrow> 'a list \<Rightarrow> nat" where
  "occurrences p [] = (if p = [] then 1 else 0)"
| "occurrences p (x # xs) = (if take (length p) (x # xs) = p then 1 else 0) + occurrences p xs"

section \<open>The dialogs\<close>

text \<open>
  \<open>settings_box\<close> (source lines 360 to 459). Each field has a label from the language
  table and is filled from the settings store, reads that raise when the lookup or
  \<open>get_config\<close> does; the layout is not modelled.
  Confirmed, the dialog returns the texts of the key and the model, the temperature
  through \<open>float\<close>, and \<open>max_tokens\<close> through \<open>int\<close> only when the text \<open>isdigit()\<close>;
  cancelled, it returns the stored values (or the defaults) through \<open>str\<close> and
  \<open>float\<close>.
\<close>

definition settings_box :: "'f env \<Rightarrow> 'f world \<Rightarrow> exn + (string \<times> 'f pyval) list" where
  "settings_box E w =
     bind_exn (lang_item (lang E) ''openai_api_key'') (\<lambda>label1.
     bind_exn (get_config w ''openai_api_key'' (VStr [])) (\<lambda>k0.
     bind_exn (lang_item (lang E) ''openai_model'') (\<lambda>label2.
     bind_exn (get_config w ''model'' (VStr ''gpt-4o-mini'')) (\<lambda>m0.
     bind_exn (lang_item (lang E) ''max_tokens'') (\<lambda>label3.
     bind_exn (get_config w ''max_tokens'' (VStr ''1000'')) (\<lambda>mt0.
     bind_exn (lang_item (lang E) ''temperature'') (\<lambda>label4.
     bind_exn (get_config w ''temperature'' (VStr ''0.5'')) (\<lambda>t0.
       case settings_dialog E of
         Settings_ok key_text model_text max_tokens_text temperature_text \<Rightarrow>
           bind_exn (py_float (builtins E) (VStr temperature_text)) (\<lambda>t.
             let result = [(''openai_api_key'', VStr key_text),
                           (''model'', VStr model_text),
                           (''temperature'', VFloat t)]
             in if py_isdigit max_tokens_text
                then bind_exn (int_of_str max_tokens_text) (\<lambda>n.
                       Inr (AList.update ''max_tokens'' (VInt n) result))
                else Inr result)
       | Settings_cancel \<Rightarrow>
           bind_exn (py_float (builtins E) t0) (\<lambda>t.
             Inr [(''openai_api_key'', VStr (py_str (builtins E) k0)),
                  (''model'', VStr (py_str (builtins E) m0)),
                  (''max_tokens'', VStr (py_str (builtins E) mt0)),
                  (''temperature'', VFloat t)])))))))))"

text \<open>\<open>translation_box\<close> (source lines 461 to 536).\<close>

definition translation_box :: "'f env \<Rightarrow> 'f world \<Rightarrow> exn + (string \<times> string) list" where
  "translation_box E w =
     bind_exn (lang_item (lang E) ''translate_to'') (\<lambda>label.
     bind_exn (get_config w ''language'' (VStr [])) (\<lambda>l0.
       case translation_dialog E of
         Translation_ok language_text \<Rightarrow> Inr [(''language'', language_text)]
       | Translation_cancel \<Rightarrow> Inr [(''language'', py_str (builtins E) l0)]))"

section \<open>The command dispatcher\<close>

text \<open>
  The body of the \<open>try\<close> of the \<open>settings\<close> command (source lines 90 to 102). The title
  of the dialog is looked up first. The four settings are written one after the other, so an exception leaves the earlier writes
  in place.
\<close>

definition settings_flow :: "'f env \<Rightarrow> 'f world \<Rightarrow> (exn + unit) \<times> 'f world" where
  "settings_flow E w =
     lift_exn (lang_item (lang E) ''settings'') w (\<lambda>title.
     lift_exn (settings_box E w) w (\<lambda>result.
       if result = [] then (Inr (), w)
       else
         lift_exn (dict_item result ''openai_api_key'') w (\<lambda>openai_api_key.
         and_then (set_config w ''openai_api_key'' openai_api_key) (\<lambda>u1 w1.
         lift_exn (dict_item result ''model'') w1 (\<lambda>openai_model.
         and_then (set_config w1 ''model'' openai_model) (\<lambda>u2 w2.
         lift_exn (dict_item result ''max_tokens'') w2 (\<lambda>max_tokens.
         and_then (set_config w2 ''max_tokens'' max_tokens) (\<lambda>u3 w3.
         lift_exn (dict_item result ''temperature'') w3 (\<lambda>temperature.
           set_config w3 ''temperature'' temperature)))))))))"

text \<open>
  The handler of the \<open>settings\<close> command (source lines 103 to 105): \<open>selection\<close> is
  still the controller's selection, and the text goes into its first range.
\<close>

definition append_error :: "'f world \<Rightarrow> exn \<Rightarrow> 'f world" where
  "append_error w e = w\<lparr>selection_range := selection_range w @ '':error: '' @ str_exn e\<rparr>"

text \<open>
  \<open>ai_result = self.process_text(...)\<close> followed by \<open>if ai_result: self.insert_text(...)\<close>
  (source lines 130 to 132 and 153 to 155): \<open>None\<close> and the empty string are false.
\<close>

definition process_and_insert :: "'f env \<Rightarrow> 'f world \<Rightarrow> string \<Rightarrow> string \<Rightarrow> string \<Rightarrow> (exn + unit) \<times> 'f world" where
  "process_and_insert E w selection command lng =
     and_then (process_text E w selection command lng) (\<lambda>ai_result w1.
       case ai_result of
         None \<Rightarrow> (Inr (), w1)
       | Some t \<Rightarrow> if t = [] then (Inr (), w1) else insert_text E w1 t selection command)"

text \<open>The body of the \<open>try\<close> of the \<open>translate\<close> command (source lines 123 to 132).\<close>

definition translate_flow :: "'f env \<Rightarrow> 'f world \<Rightarrow> string \<Rightarrow> string \<Rightarrow> (exn + unit) \<times> 'f world" where
  "translate_flow E w selection command =
     lift_exn (lang_item (lang E) ''translate'') w (\<lambda>title.
     lift_exn (translation_box E w) w (\<lambda>result.
       if result = [] then (Inr (), w)
       else
         lift_exn (dict_item result ''language'') w (\<lambda>language.
         and_then (set_config w ''language'' (VStr language)) (\<lambda>u w1.
           if language \<noteq> [] then process_and_insert E w1 selection command language
           else (Inr (), w1)))))"

text \<open>
  The two checks that \<open>translate\<close> and the four text commands share (source lines 108 to
  120 and 139 to 151): no document, nothing happens; a selection that is empty once
  stripped, the dialog \<open>no_text_selected\<close>; an API key equal to the empty string, the
  dialog \<open>no_api_key\<close>. Only then does the command go on, with the selection.
\<close>

definition guarded :: "'f env \<Rightarrow> 'f world \<Rightarrow> (string \<Rightarrow> (exn + unit) \<times> 'f world) \<Rightarrow> (exn + unit) \<times> 'f world" where
  "guarded E w continue =
     (if \<not> document_open w then (Inr (), w)
      else
        let selection = view_cursor w in
        if py_strip selection = [] then show_error E w ''no_text_selected''
        else
          lift_exn (get_config w ''openai_api_key'' (VStr [])) w (\<lambda>openai_api_key.
            if openai_api_key = VStr [] then show_error E w ''no_api_key''
            else continue selection))"

text \<open>
  \<open>trigger\<close> (source lines 66 to 155). Its first lines fetch the current component
  and the controller's selection from the host; the model keeps of them the string of
  the first range of that selection. The handler of \<open>translate\<close> is the text of the
  handler of \<open>settings\<close>, but \<open>selection\<close> has been rebound to the string of the view
  cursor by then, so \<open>selection.getByIndex(0)\<close> raises \<open>AttributeError\<close> inside the
  handler and that exception leaves \<open>trigger\<close>. The four text commands have no
  handler.
\<close>

definition trigger :: "'f env \<Rightarrow> 'f world \<Rightarrow> string \<Rightarrow> (exn + unit) \<times> 'f world" where
  "trigger E w command =
     (if command = ''hello'' then (Inr (), w)
      else if command = ''settings'' then
        (case settings_flow E w of
           (Inl e, w1) \<Rightarrow> (Inr (), append_error w1 e)
         | (Inr u, w1) \<Rightarrow> (Inr (), w1))
      else if command = ''translate'' then
        guarded E w (\<lambda>selection.
          case translate_flow E w selection command of
            (Inl e, w1) \<Rightarrow>
              (Inl (AttributeError
                      (py_repr ''str'' @ '' object has no attribute '' @ py_repr ''getByIndex'')), w1)
          | (Inr u, w1) \<Rightarrow> (Inr (), w1))
      else
        guarded E w (\<lambda>selection. process_and_insert E w selection command []))"

section \<open>Concrete inputs\<close>

text \<open>
  A language table with every key the class reads, library functions on a small
  domain (floats stand as reals here), and an endpoint that answers every request with
  status 200 and the body of the spec's example. They are the inputs of the closed
  theorems below.
\<close>

definition sample_lang :: "string \<Rightarrow> string option" where
  "sample_lang =
     map_of [(''error'', ''Error''),
             (''no_text_selected'', ''No text selected''),
             (''no_api_key'', ''No API key''),
             (''settings'', ''Settings''),
             (''translate'', ''Translate''),
             (''translate_to'', ''Translate to''),
             (''openai_api_key'', ''API key''),
             (''openai_model'', ''Model''),
             (''max_tokens'', ''Max tokens''),
             (''temperature'', ''Temperature''),
             (''prompt_assistant'', ''You are a writing assistant''),
             (''prompt_complete'', ''Complete''),
             (''prompt_summarize'', ''Summarize''),
             (''prompt_improve'', ''Improve''),
             (''prompt_expand'', ''Expand''),
             (''prompt_translate'', ''Translate to''),
             (''command_complete'', ''complete''),
             (''command_summarize'', ''summarize''),
             (''command_improve'', ''improve''),
             (''command_expand'', ''expand''),
             (''command_translate'', ''translate''),
             (''block_start'', ''START''),
             (''block_end'', ''END'')]"

definition hello_body :: string where
  "hello_body = ''{\"choices\":[{\"message\":{\"content\":\" Hello \"}}]}''"

definition hello_json :: "real json" where
  "hello_json =
     JObj [(''choices'', JArr [JObj [(''message'', JObj [(''content'', JStr '' Hello '')])]])]"

text \<open>A response that has the path of the content, with \<open>null\<close> as the content.\<close>

definition null_body :: string where
  "null_body = ''{\"choices\":[{\"message\":{\"content\":null}}]}''"

definition null_json :: "real json" where
  "null_json =
     JObj [(''choices'', JArr [JObj [(''message'', JObj [(''content'', JNull)])]])]"

definition sample_builtins :: "real builtins" where
  "sample_builtins =
     \<lparr>float_of_str = (\<lambda>s. if s = ''0.5'' then Some (1 / 2)
                          else if s = ''0.7'' then Some (7 / 10) else None),
      float_of_int = (\<lambda>i. Inr (of_int i)),
      int_of_float = (\<lambda>x. Inr (if 0 \<le> x then \<lfloor>x\<rfloor> else \<lceil>x\<rceil>)),
      str_of_float = (\<lambda>x. if x = 7 / 10 then ''0.7'' else ''0.5''),
      str_upper = (\<lambda>s. if s = ''improve'' then ''IMPROVE''
                       else if s = ''translate'' then ''TRANSLATE'' else s),
      json_loads = (\<lambda>b. if b = hello_body then Inr hello_json
                        else if b = null_body then Inr null_json
                        else Inl (ValueError ''Expecting value: line 1 column 1 (char 0)''))\<rparr>"

definition sample_env :: "real env" where
  "sample_env =
     \<lparr>lang = sample_lang,
      builtins = sample_builtins,
      endpoint = (\<lambda>req. Reply 200 ''OK'' hello_body),
      settings_dialog = Settings_cancel,
      translation_dialog = Translation_cancel\<rparr>"

text \<open>
  A first run: no settings file yet, a document with the text \<open>X\<close> selected. And
  the same with an API key stored.
\<close>

definition fresh_world :: "real world" where
  "fresh_world =
     \<lparr>settings_file = Missing,
      settings_readable = True,
      settings_write = Write_completes,
      document_open = True,
      view_cursor = ''X'',
      selection_range = ''X'',
      dialogs = [],
      http_log = []\<rparr>"

definition keyed_world :: "real world" where
  "keyed_world = fresh_world\<lparr>settings_file := Holds_object [(''openai_api_key'', VStr ''sk-1'')]\<rparr>"

text \<open>
  The request that \<open>process_text\<close> builds in \<open>keyed_world\<close> for a prompt, and an
  endpoint that answers every request with status 500.
\<close>

definition null_env :: "real env" where
  "null_env = sample_env\<lparr>endpoint := (\<lambda>req. Reply 200 ''OK'' null_body)\<rparr>"

definition failing_env :: "real env" where
  "failing_env = sample_env\<lparr>endpoint := (\<lambda>req. Reply 500 ''Internal Server Error'' ''{\"error\":\"overloaded\"}'')\<rparr>"

definition sample_request :: "string \<Rightarrow> real request" where
  "sample_request prompt =
     \<lparr>url = ''https://api.openai.com/v1/chat/completions'',
      authorization = ''Bearer sk-1'',
      content_type = ''application/json'',
      payload_model = VStr ''gpt-4o-mini'',
      assistant_text = ''You are a writing assistant'',
      user_text = prompt,
      max_completion_tokens = 1000,
      temperature = 1 / 2\<rparr>"

text \<open>
  What the spec's example of the inserter produces: selection \<open>X\<close>, command
  \<open>improve\<close>, generated text \<open>Y\<close>.
\<close>

definition improve_output :: string where
  "improve_output =
     ''X'' @ [CHR 0x0A, CHR 0x0A] @ ''[---START IMPROVE ---]'' @ [CHR 0x0A] @ ''Y'' @ [CHR 0x0A]
     @ ''[/---END IMPROVE ---]'' @ [CHR 0x0A, CHR 0x0A]"

text \<open>
  The settings dialog confirmed with a numeric and with a non-numeric \<open>max_tokens\<close>
  field, and the settings file as the first of the two leaves it.
\<close>

definition confirm_env :: "real env" where
  "confirm_env = sample_env\<lparr>settings_dialog := Settings_ok ''sk-2'' ''gpt-4o'' ''500'' ''0.7''\<rparr>"

definition nondigit_env :: "real env" where
  "nondigit_env = sample_env\<lparr>settings_dialog := Settings_ok ''sk-2'' ''gpt-4o'' ''many'' ''0.7''\<rparr>"

definition stored_world :: "real world" where
  "stored_world =
     fresh_world\<lparr>settings_file :=
       Holds_object [(''openai_api_key'', VStr ''sk-2''),
                     (''model'', VStr ''gpt-4o''),
                     (''max_tokens'', VInt 500),
                     (''temperature'', VFloat (7 / 10))]\<rparr>"

text \<open>
  A whitespace-only selection; a settings file edited by hand, whose \<open>max_tokens\<close>
  is not a number; an endpoint whose body is not JSON; a translation dialog confirmed
  with the language \<open>en\<close>.
\<close>

definition blank_world :: "real world" where
  "blank_world = fresh_world\<lparr>view_cursor := [CHR '' '', CHR 0x0A]\<rparr>"

definition lots_world :: "real world" where
  "lots_world =
     fresh_world\<lparr>view_cursor := ''hola'',
       settings_file := Holds_object [(''openai_api_key'', VStr ''sk-1''),
                                      (''max_tokens'', VStr ''lots'')]\<rparr>"

definition garbled_env :: "real env" where
  "garbled_env = sample_env\<lparr>endpoint := (\<lambda>req. Reply 200 ''OK'' ''<html>'')\<rparr>"

definition translate_env :: "real env" where
  "translate_env = sample_env\<lparr>translation_dialog := Translation_ok ''en''\<rparr>"

section \<open>Properties of the settings store\<close>









section \<open>Properties of the prompt builder\<close>

lemma lang_item_Some: "L k = Some v \<Longrightarrow> lang_item L k = Inr v"
  by (simp add: lang_item_def)

lemma prompt_map_Inr:
  assumes "L ''prompt_complete'' = Some pc" and "L ''prompt_summarize'' = Some ps"
    and "L ''prompt_improve'' = Some pim" and "L ''prompt_expand'' = Some pe"
    and "L ''prompt_translate'' = Some pt"
  shows "prompt_map L txt lng =
     Inr [(''complete'', pc @ '': '' @ txt),
          (''summarize'', ps @ '': '' @ txt),
          (''improve'', pim @ '': '' @ txt),
          (''expand'', pe @ '': '' @ txt),
          (''translate'', pt @ '' '' @ lng @ '': '' @ txt)]"
  using assms by (simp add: prompt_map_def bind_exn_def lang_item_Some)

text \<open>
  Claim C4: with the five prompt labels in the language table, the prompt of
  \<open>translate\<close> is the label, a space, the target language, a colon and a space, and
  the text (so \<open>build_prompt("translate", "hola", "en")\<close> is the label followed by
  \<open>" en: hola"\<close>); the prompt of each of the four other commands is its label, a
  colon and a space, and the text; a command outside the five has no prompt, and
  \<open>process_text\<close> returns \<open>None\<close> for it, leaving the state as it was.
\<close>

theorem prompt_map_builds_prompts:
  assumes "lang E ''prompt_complete'' = Some pc" and "lang E ''prompt_summarize'' = Some ps"
    and "lang E ''prompt_improve'' = Some pim" and "lang E ''prompt_expand'' = Some pe"
    and "lang E ''prompt_translate'' = Some pt"
  shows "build_prompt (lang E) ''translate'' txt lng = Inr (Some (pt @ '' '' @ lng @ '': '' @ txt))
     \<and> build_prompt (lang E) ''complete'' txt lng = Inr (Some (pc @ '': '' @ txt))
     \<and> build_prompt (lang E) ''summarize'' txt lng = Inr (Some (ps @ '': '' @ txt))
     \<and> build_prompt (lang E) ''improve'' txt lng = Inr (Some (pim @ '': '' @ txt))
     \<and> build_prompt (lang E) ''expand'' txt lng = Inr (Some (pe @ '': '' @ txt))
     \<and> (c \<notin> {''complete'', ''summarize'', ''improve'', ''expand'', ''translate''} \<longrightarrow>
           build_prompt (lang E) c txt lng = Inr None
           \<and> process_text E w txt c lng = (Inr None, w))"
  by (simp add: build_prompt_def prompt_map_Inr [OF assms] bind_exn_def process_text_def lift_exn_def)

theorem prompt_map_builds_prompts_witness:
  "lang sample_env ''prompt_complete'' = Some ''Complete''
   \<and> lang sample_env ''prompt_summarize'' = Some ''Summarize''
   \<and> lang sample_env ''prompt_improve'' = Some ''Improve''
   \<and> lang sample_env ''prompt_expand'' = Some ''Expand''
   \<and> lang sample_env ''prompt_translate'' = Some ''Translate to''
   \<and> ''rewrite'' \<notin> {''complete'', ''summarize'', ''improve'', ''expand'', ''translate''}
   \<and> build_prompt (lang sample_env) ''translate'' ''hola'' ''en'' = Inr (Some ''Translate to en: hola'')
   \<and> build_prompt (lang sample_env) ''summarize'' ''hola'' [] = Inr (Some ''Summarize: hola'')
   \<and> build_prompt (lang sample_env) ''rewrite'' ''hola'' [] = Inr None
   \<and> process_text sample_env fresh_world ''hola'' ''rewrite'' [] = (Inr None, fresh_world)"
proof -
  have h: "lang sample_env ''prompt_complete'' = Some ''Complete''"
    "lang sample_env ''prompt_summarize'' = Some ''Summarize''"
    "lang sample_env ''prompt_improve'' = Some ''Improve''"
    "lang sample_env ''prompt_expand'' = Some ''Expand''"
    "lang sample_env ''prompt_translate'' = Some ''Translate to''"
    by (simp_all add: sample_env_def sample_lang_def)
  have n: "''rewrite'' \<notin> {''complete'', ''summarize'', ''improve'', ''expand'', ''translate''}"
    by simp
  from prompt_map_builds_prompts [OF h, of "''hola''" "''en''" "''rewrite''" fresh_world]
  have a: "build_prompt (lang sample_env) ''translate'' ''hola'' ''en'' = Inr (Some ''Translate to en: hola'')"
    by simp
  from prompt_map_builds_prompts [OF h, of "''hola''" "[]" "''rewrite''" fresh_world] n
  have b: "build_prompt (lang sample_env) ''summarize'' ''hola'' [] = Inr (Some ''Summarize: hola'')"
    "build_prompt (lang sample_env) ''rewrite'' ''hola'' [] = Inr None"
    "process_text sample_env fresh_world ''hola'' ''rewrite'' [] = (Inr None, fresh_world)"
    by simp_all
  from h n a b show ?thesis by (intro conjI)
qed

section \<open>Properties of the completion client\<close>

text \<open>What \<open>strip\<close> removes: whitespace at both ends, and nothing else.\<close>

lemma py_strip_decomposition:
  "\<exists>a b. s = a @ py_strip s @ b \<and> list_all py_isspace a \<and> list_all py_isspace b"
proof -
  let ?t = "dropWhile py_isspace s"
  let ?a = "takeWhile py_isspace s"
  let ?b = "rev (takeWhile py_isspace (rev ?t))"
  have "rev ?t = takeWhile py_isspace (rev ?t) @ dropWhile py_isspace (rev ?t)"
    by simp
  then have "?t = py_strip s @ ?b"
    by (metis py_strip_def rev_append rev_rev_ident)
  then have "s = ?a @ py_strip s @ ?b"
    by (metis takeWhile_dropWhile_id)
  moreover have "list_all py_isspace ?a"
    by (simp add: list_all_iff) (meson set_takeWhileD)
  moreover have "list_all py_isspace ?b"
    by (simp add: list_all_iff) (meson set_takeWhileD)
  ultimately show ?thesis by blast
qed

lemma py_strip_ends:
  assumes "py_strip s \<noteq> []"
  shows "\<not> py_isspace (hd (py_strip s))" and "\<not> py_isspace (last (py_strip s))"
proof -
  let ?t = "dropWhile py_isspace s"
  let ?u = "dropWhile py_isspace (rev ?t)"
  from assms have u: "?u \<noteq> []" by (simp add: py_strip_def)
  then have "\<not> py_isspace (hd ?u)" by (rule hd_dropWhile)
  then show "\<not> py_isspace (last (py_strip s))"
    using u by (simp add: py_strip_def last_rev)
  have t: "?t \<noteq> []"
    using u by (metis dropWhile.simps(1) rev.simps(1))
  then have h: "\<not> py_isspace (hd ?t)" by (rule hd_dropWhile)
  obtain b where "?t = py_strip s @ b"
    by (metis py_strip_def rev_append rev_rev_ident takeWhile_dropWhile_id)
  with assms have "hd ?t = hd (py_strip s)" by (metis hd_append2)
  with h show "\<not> py_isspace (hd (py_strip s))" by simp
qed

lemma response_content_path:
  "map_of kvs ''choices'' = Some (JArr (JObj ckvs # rest)) \<Longrightarrow>
   map_of ckvs ''message'' = Some (JObj mkvs) \<Longrightarrow>
   map_of mkvs ''content'' = Some (JStr c) \<Longrightarrow>
   response_content (JObj kvs) = Inr (py_strip c)"
  by (simp add: response_content_def bind_exn_def)

lemma process_text_round_trip:
  "build_prompt (lang E) command txt lng = Inr (Some prompt) \<Longrightarrow>
   build_request E w prompt = Inr req \<Longrightarrow>
   process_text E w txt command lng = round_trip E w req"
  by (auto simp: build_prompt_def process_text_def bind_exn_def lift_exn_def split: sum.splits)

lemma round_trip_content:
  "endpoint E req = Reply 200 msg body \<Longrightarrow> json_loads (builtins E) body = Inr j \<Longrightarrow>
   response_content j = Inr c \<Longrightarrow>
   round_trip E w req = (Inr (Some c), w\<lparr>http_log := http_log w @ [req]\<rparr>)"
  by (simp add: round_trip_def urlopen_def bind_exn_def Let_def)

lemma round_trip_http_error:
  "endpoint E req = Reply status msg body \<Longrightarrow> \<not> (200 \<le> status \<and> status < 300) \<Longrightarrow>
   lang E ''error'' = Some title \<Longrightarrow>
   round_trip E w req =
     (Inr None, show_dialog (w\<lparr>http_log := http_log w @ [req]\<rparr>) title
                  (''HTTP Error '' @ str_nat status @ '': '' @ msg))"
  by (auto simp: round_trip_def urlopen_def report_exception_def lift_exn_def lang_item_Some Let_def)

lemma round_trip_other_success:
  "endpoint E req = Reply status msg body \<Longrightarrow> 200 < status \<Longrightarrow> status < 300 \<Longrightarrow>
   lang E ''error'' = Some title \<Longrightarrow>
   round_trip E w req = (Inr None, show_dialog (w\<lparr>http_log := http_log w @ [req]\<rparr>) title body)"
  by (simp add: round_trip_def urlopen_def lang_item_Some Let_def)

lemma round_trip_raised:
  "lang E ''error'' = Some title \<Longrightarrow> urlopen (endpoint E req) = Inl x \<Longrightarrow>
   round_trip E w req =
     (Inr None, w\<lparr>http_log := http_log w @ [req], dialogs := dialogs w @ [(title, str_exn x)]\<rparr>)"
  by (simp add: round_trip_def report_exception_def lift_exn_def lang_item_Some show_dialog_def
      Let_def)

lemma round_trip_unparsed:
  "lang E ''error'' = Some title \<Longrightarrow> endpoint E req = Reply 200 msg body \<Longrightarrow>
   bind_exn (json_loads (builtins E) body) response_content = Inl x \<Longrightarrow>
   round_trip E w req =
     (Inr None, w\<lparr>http_log := http_log w @ [req], dialogs := dialogs w @ [(title, str_exn x)]\<rparr>)"
  by (simp add: round_trip_def urlopen_def report_exception_def lift_exn_def lang_item_Some
      show_dialog_def Let_def)

text \<open>A network failure reaches the handler: the dialog holds the text of the exception.\<close>

lemma round_trip_no_reply:
  "endpoint E req = No_reply reason \<Longrightarrow> lang E ''error'' = Some title \<Longrightarrow>
   round_trip E w req =
     (Inr None, show_dialog (w\<lparr>http_log := http_log w @ [req]\<rparr>) title
                  (''<urlopen error '' @ reason @ ''>''))"
  by (simp add: round_trip_def urlopen_def report_exception_def lift_exn_def lang_item_Some Let_def)

lemmas int_of_str_eval =
  int_of_str_def int_strip_def int_isspace_def int_whitespace_def digit_run_def count_digits_def
  py_isdecimal_char_def py_decimals_def digit_value_def Let_def

lemma int_of_str_1000: "int_of_str ''1000'' = Inr 1000"
  by (simp add: int_of_str_eval)

lemma sample_build_request:
  "build_request (sample_env\<lparr>endpoint := ep\<rparr>) keyed_world prompt = Inr (sample_request prompt)"
  by (simp add: build_request_def bind_exn_def get_config_def keyed_world_def fresh_world_def
      sample_env_def sample_lang_def sample_builtins_def lang_item_def int_of_str_1000
      sample_request_def API_URL_def)

lemma sample_build_prompt:
  "build_prompt sample_lang ''summarize'' ''hola'' [] = Inr (Some ''Summarize: hola'')"
  by (simp add: build_prompt_def prompt_map_def bind_exn_def lang_item_def sample_lang_def)

text \<open>
  Claim C5, as the code has it: when the command has a prompt, the request is built,
  the endpoint answers with status 200 and the parsed body is an object whose
  \<open>choices[0].message.content\<close> is a string \<open>c\<close>, \<open>process_text\<close> returns \<open>c\<close> stripped, after exactly one
  call of \<open>urlopen\<close> and with no dialog. The stripped string is \<open>c\<close> without a
  whitespace prefix and a whitespace suffix, and neither begins nor ends with
  whitespace. For the body of the spec's example the result is \<open>Hello\<close>.
\<close>

theorem process_text_returns_trimmed_content:
  assumes "build_prompt (lang E) command txt lng = Inr (Some prompt)"
    and "build_request E w prompt = Inr req"
    and "endpoint E req = Reply 200 msg body"
    and "json_loads (builtins E) body = Inr (JObj kvs)"
    and "map_of kvs ''choices'' = Some (JArr (JObj ckvs # rest))"
    and "map_of ckvs ''message'' = Some (JObj mkvs)"
    and "map_of mkvs ''content'' = Some (JStr c)"
  shows "process_text E w txt command lng =
           (Inr (Some (py_strip c)), w\<lparr>http_log := http_log w @ [req]\<rparr>)
     \<and> (\<exists>a b. c = a @ py_strip c @ b \<and> list_all py_isspace a \<and> list_all py_isspace b)
     \<and> (py_strip c = [] \<or>
          \<not> py_isspace (hd (py_strip c)) \<and> \<not> py_isspace (last (py_strip c)))"
proof -
  have "response_content (JObj kvs) = Inr (py_strip c)"
    using assms(5-7) by (rule response_content_path)
  with assms(3,4) have "round_trip E w req = (Inr (Some (py_strip c)), w\<lparr>http_log := http_log w @ [req]\<rparr>)"
    by (rule round_trip_content)
  with process_text_round_trip [OF assms(1,2)]
  have "process_text E w txt command lng =
           (Inr (Some (py_strip c)), w\<lparr>http_log := http_log w @ [req]\<rparr>)"
    by simp
  then show ?thesis
    using py_strip_decomposition [of c] py_strip_ends [of c] by blast
qed

theorem process_text_returns_trimmed_content_witness:
  "build_prompt (lang sample_env) ''summarize'' ''hola'' [] = Inr (Some ''Summarize: hola'')
   \<and> build_request sample_env keyed_world ''Summarize: hola'' = Inr (sample_request ''Summarize: hola'')
   \<and> endpoint sample_env (sample_request ''Summarize: hola'') = Reply 200 ''OK'' hello_body
   \<and> json_loads (builtins sample_env) hello_body = Inr hello_json
   \<and> process_text sample_env keyed_world ''hola'' ''summarize'' [] =
       (Inr (Some ''Hello''), keyed_world\<lparr>http_log := [sample_request ''Summarize: hola'']\<rparr>)"
proof -
  have p: "build_prompt (lang sample_env) ''summarize'' ''hola'' [] = Inr (Some ''Summarize: hola'')"
    by (simp add: sample_env_def sample_build_prompt)
  have r: "build_request sample_env keyed_world ''Summarize: hola'' = Inr (sample_request ''Summarize: hola'')"
    using sample_build_request [of "endpoint sample_env" "''Summarize: hola''"] by simp
  have e: "endpoint sample_env (sample_request ''Summarize: hola'') = Reply 200 ''OK'' hello_body"
    by (simp add: sample_env_def)
  have j: "json_loads (builtins sample_env) hello_body =
      Inr (JObj [(''choices'', JArr [JObj [(''message'', JObj [(''content'', JStr '' Hello '')])]])])"
    by (simp add: sample_env_def sample_builtins_def hello_json_def)
  have s: "py_strip '' Hello '' = ''Hello''"
    by (simp add: py_strip_def py_isspace_def py_whitespace_def)
  have l: "http_log keyed_world = []"
    by (simp add: keyed_world_def fresh_world_def)
  from process_text_returns_trimmed_content [OF p r e j, of
      "[(''message'', JObj [(''content'', JStr '' Hello '')])]" "[]" "[(''content'', JStr '' Hello '')]" "'' Hello ''"]
  have "process_text sample_env keyed_world ''hola'' ''summarize'' [] =
       (Inr (Some ''Hello''), keyed_world\<lparr>http_log := [sample_request ''Summarize: hola'']\<rparr>)"
    by (simp add: s l)
  with p r e j show ?thesis by (simp add: hello_json_def)
qed

text \<open>
  Claim C5 does not hold for every body that has the path: when the content is
  \<open>null\<close>, \<open>.strip()\<close> raises \<open>AttributeError\<close> (source line 300), the handler shows
  it in a dialog and \<open>process_text\<close> returns \<open>None\<close>.
\<close>

theorem process_text_null_content_counterexample:
  "bind_exn (getitem_key null_json ''choices'') (\<lambda>choices.
     bind_exn (getitem_0 choices) (\<lambda>choice.
     bind_exn (getitem_key choice ''message'') (\<lambda>message.
       getitem_key message ''content''))) = Inr JNull
   \<and> process_text null_env keyed_world ''hola'' ''summarize'' [] =
     (Inr None,
      keyed_world\<lparr>http_log := [sample_request ''Summarize: hola''],
        dialogs := [(''Error'',
                     py_repr ''NoneType'' @ '' object has no attribute '' @ py_repr ''strip'')]\<rparr>)"
proof (intro conjI)
  show "bind_exn (getitem_key null_json ''choices'') (\<lambda>choices.
     bind_exn (getitem_0 choices) (\<lambda>choice.
     bind_exn (getitem_key choice ''message'') (\<lambda>message.
       getitem_key message ''content''))) = Inr JNull"
    by (simp add: null_json_def bind_exn_def)
  have p: "build_prompt (lang null_env) ''summarize'' ''hola'' [] = Inr (Some ''Summarize: hola'')"
    by (simp add: null_env_def sample_env_def sample_build_prompt)
  have r: "build_request null_env keyed_world ''Summarize: hola'' = Inr (sample_request ''Summarize: hola'')"
    by (simp add: null_env_def sample_build_request)
  have t: "lang null_env ''error'' = Some ''Error''"
    by (simp add: null_env_def sample_env_def sample_lang_def)
  have e: "endpoint null_env (sample_request ''Summarize: hola'') = Reply 200 ''OK'' null_body"
    by (simp add: null_env_def)
  have j: "bind_exn (json_loads (builtins null_env) null_body) response_content
      = Inl (AttributeError (py_repr ''NoneType'' @ '' object has no attribute '' @ py_repr ''strip''))"
    by (simp add: null_env_def sample_env_def sample_builtins_def null_body_def hello_body_def
        null_json_def bind_exn_def response_content_def)
  have "round_trip null_env keyed_world (sample_request ''Summarize: hola'') =
     (Inr None, keyed_world\<lparr>http_log := http_log keyed_world @ [sample_request ''Summarize: hola''],
        dialogs := dialogs keyed_world @ [(''Error'',
          str_exn (AttributeError (py_repr ''NoneType'' @ '' object has no attribute '' @ py_repr ''strip'')))]\<rparr>)"
    using t e j by (rule round_trip_unparsed)
  then have "process_text null_env keyed_world ''hola'' ''summarize'' [] =
     (Inr None, keyed_world\<lparr>http_log := http_log keyed_world @ [sample_request ''Summarize: hola''],
        dialogs := dialogs keyed_world @ [(''Error'',
          str_exn (AttributeError (py_repr ''NoneType'' @ '' object has no attribute '' @ py_repr ''strip'')))]\<rparr>)"
    by (simp only: process_text_round_trip [OF p r])
  then show "process_text null_env keyed_world ''hola'' ''summarize'' [] =
     (Inr None,
      keyed_world\<lparr>http_log := [sample_request ''Summarize: hola''],
        dialogs := [(''Error'',
                     py_repr ''NoneType'' @ '' object has no attribute '' @ py_repr ''strip'')]\<rparr>)"
    by (simp add: keyed_world_def fresh_world_def)
qed

lemma str_nat_500: "str_nat 500 = ''500''"
  by code_simp

text \<open>
  Claim C1 at status 500. The \<open>else\<close> branch of \<open>process_text\<close> (source lines 301 and
  302) would show the body of a response whose status is not 200, but \<open>urlopen\<close> does
  not return such a response for status 500: it raises \<open>HTTPError\<close>, the handler of
  source lines 303 and 304 takes over, and the dialog holds \<open>str(e)\<close>, the text
  \<open>HTTP Error 500: Internal Server Error\<close>, not the body the endpoint sent.
  \<open>round_trip_other_success\<close> shows the only replies whose body is shown: those with
  a status from 201 to 299.
\<close>

theorem process_text_status_500:
  "process_text failing_env keyed_world ''hola'' ''summarize'' [] =
     (Inr None,
      keyed_world\<lparr>http_log := [sample_request ''Summarize: hola''],
                  dialogs := [(''Error'', ''HTTP Error 500: Internal Server Error'')]\<rparr>)"
proof -
  have p: "build_prompt (lang failing_env) ''summarize'' ''hola'' [] = Inr (Some ''Summarize: hola'')"
    by (simp add: failing_env_def sample_env_def sample_build_prompt)
  have r: "build_request failing_env keyed_world ''Summarize: hola'' = Inr (sample_request ''Summarize: hola'')"
    by (simp add: failing_env_def sample_build_request)
  have e: "endpoint failing_env (sample_request ''Summarize: hola'')
      = Reply 500 ''Internal Server Error'' ''{\"error\":\"overloaded\"}''"
    by (simp add: failing_env_def)
  have t: "lang failing_env ''error'' = Some ''Error''"
    by (simp add: failing_env_def sample_env_def sample_lang_def)
  have "round_trip failing_env keyed_world (sample_request ''Summarize: hola'') =
     (Inr None, show_dialog (keyed_world\<lparr>http_log := http_log keyed_world @ [sample_request ''Summarize: hola'']\<rparr>)
        ''Error'' (''HTTP Error '' @ str_nat 500 @ '': '' @ ''Internal Server Error''))"
    using e _ t by (rule round_trip_http_error) simp
  then have "process_text failing_env keyed_world ''hola'' ''summarize'' [] =
     (Inr None, show_dialog (keyed_world\<lparr>http_log := http_log keyed_world @ [sample_request ''Summarize: hola'']\<rparr>)
        ''Error'' (''HTTP Error '' @ str_nat 500 @ '': '' @ ''Internal Server Error''))"
    by (simp only: process_text_round_trip [OF p r])
  then show ?thesis
    by (simp add: str_nat_500 show_dialog_def keyed_world_def fresh_world_def)
qed

section \<open>Properties of the result inserter\<close>

lemma occurrences_absent: "c \<notin> set xs \<Longrightarrow> occurrences (c # p) xs = 0"
  by (induction xs) auto

lemma occurrences_skip: "c \<notin> set xs \<Longrightarrow> occurrences (c # p) (xs @ ys) = occurrences (c # p) ys"
  by (induction xs) auto

lemma take_other_head:
  "S \<noteq> [] \<Longrightarrow> T \<noteq> [] \<Longrightarrow> hd S \<noteq> hd T \<Longrightarrow> take (length T) (S @ X) \<noteq> T"
  by (cases S; cases T) auto

lemma occurrences_block:
  assumes "c \<notin> set pre" and "c \<notin> set S" and "c \<notin> set mid" and "c \<notin> set T"
    and "c \<notin> set post" and "S \<noteq> []" and "T \<noteq> []" and "hd S \<noteq> hd T"
  shows "occurrences (c # S) (pre @ c # S @ mid @ c # T @ post) = 1"
    and "occurrences (c # T) (pre @ c # S @ mid @ c # T @ post) = 1"
proof -
  have a: "take (length S) (T @ post) \<noteq> S"
    using assms(6-8) by (metis take_other_head)
  have b: "take (length T) (S @ mid @ c # T @ post) \<noteq> T"
    using assms(6-8) by (metis take_other_head)
  have "occurrences (c # S) (pre @ c # S @ mid @ c # T @ post)
      = occurrences (c # S) (c # (S @ mid) @ c # T @ post)"
    using assms(1) by (simp add: occurrences_skip)
  also have "\<dots> = 1 + occurrences (c # S) ((S @ mid) @ c # T @ post)"
    by simp
  also have "occurrences (c # S) ((S @ mid) @ c # T @ post) = occurrences (c # S) (c # T @ post)"
    using assms(2,3) by (intro occurrences_skip) simp
  also have "\<dots> = occurrences (c # S) (T @ post)"
    using a by simp
  also have "\<dots> = 0"
    using assms(4,5) by (intro occurrences_absent) simp
  finally show "occurrences (c # S) (pre @ c # S @ mid @ c # T @ post) = 1" by simp
  have "occurrences (c # T) (pre @ c # S @ mid @ c # T @ post)
      = occurrences (c # T) (c # (S @ mid) @ c # T @ post)"
    using assms(1) by (simp add: occurrences_skip)
  also have "\<dots> = occurrences (c # T) ((S @ mid) @ c # T @ post)"
    using b by simp
  also have "\<dots> = occurrences (c # T) (c # T @ post)"
    using assms(2,3) by (intro occurrences_skip) simp
  also have "\<dots> = 1 + occurrences (c # T) (T @ post)"
    by simp
  also have "occurrences (c # T) (T @ post) = 0"
    using assms(4,5) by (intro occurrences_absent) simp
  finally show "occurrences (c # T) (pre @ c # S @ mid @ c # T @ post) = 1" by simp
qed

lemma insert_text_result:
  assumes "lang E (''command_'' @ command) = Some label"
    and "lang E ''block_start'' = Some bs"
    and "lang E ''block_end'' = Some be"
    and "command = ''translate'' \<longrightarrow> get_config w ''language'' (VStr []) = Inr v"
    and "language = (if command = ''translate'' then py_str (builtins E) v else [])"
  shows "insert_text E w t s command =
     (Inr (),
      w\<lparr>view_cursor :=
          s @ newline @ newline
          @ start_marker bs (str_upper (builtins E) label) language @ newline
          @ t @ newline
          @ end_marker be (str_upper (builtins E) label) language @ newline @ newline\<rparr>)"
  using assms by (simp add: insert_text_def lift_exn_def bind_exn_def lang_item_Some)

text \<open>
  Claim C7, as the code has it. With the labels of the command and of the two block
  markers in the language table, \<open>insert_text\<close> sets the string of the view cursor
  to the selection, two newlines, the start marker
  \<open>[---<START> <COMMAND> <LANGUAGE>---]\<close>, a newline, the generated text, a newline,
  the end marker \<open>[/---<END> <COMMAND> <LANGUAGE>---]\<close> and two newlines, where the
  command label is upper-cased and the language is empty unless the command is
  \<open>translate\<close>, for which it is the stored \<open>language\<close> setting. The selection is a
  prefix of the output. When no opening bracket occurs in the selection, the generated
  text, the labels and the language, the start marker and the end marker each occur
  exactly once in the output.
\<close>

theorem insert_text_format:
  assumes "lang E (''command_'' @ command) = Some label"
    and "lang E ''block_start'' = Some bs"
    and "lang E ''block_end'' = Some be"
    and "command = ''translate'' \<longrightarrow> get_config w ''language'' (VStr []) = Inr v"
    and "language = (if command = ''translate'' then py_str (builtins E) v else [])"
    and "u = str_upper (builtins E) label"
    and "out = s @ [CHR 0x0A, CHR 0x0A]
               @ ''[---'' @ bs @ '' '' @ u @ '' '' @ language @ ''---]'' @ [CHR 0x0A]
               @ t @ [CHR 0x0A]
               @ ''[/---'' @ be @ '' '' @ u @ '' '' @ language @ ''---]'' @ [CHR 0x0A, CHR 0x0A]"
  shows "insert_text E w t s command = (Inr (), w\<lparr>view_cursor := out\<rparr>)
     \<and> take (length s) out = s
     \<and> (CHR ''['' \<notin> set (s @ t @ bs @ be @ u @ language) \<longrightarrow>
          occurrences (''[---'' @ bs @ '' '' @ u @ '' '' @ language @ ''---]'') out = 1
          \<and> occurrences (''[/---'' @ be @ '' '' @ u @ '' '' @ language @ ''---]'') out = 1)"
proof (intro conjI impI)
  show "insert_text E w t s command = (Inr (), w\<lparr>view_cursor := out\<rparr>)"
    using insert_text_result [OF assms(1-5), of t s] assms(6,7)
    by (simp add: start_marker_def end_marker_def newline_def)
  show "take (length s) out = s"
    using assms(7) by simp
next
  assume n: "CHR ''['' \<notin> set (s @ t @ bs @ be @ u @ language)"
  let ?S = "''---'' @ bs @ '' '' @ u @ '' '' @ language @ ''---]''"
  let ?T = "''/---'' @ be @ '' '' @ u @ '' '' @ language @ ''---]''"
  let ?pre = "s @ [CHR 0x0A, CHR 0x0A]"
  let ?mid = "[CHR 0x0A] @ t @ [CHR 0x0A]"
  let ?post = "[CHR 0x0A, CHR 0x0A]"
  have o: "out = ?pre @ CHR ''['' # ?S @ ?mid @ CHR ''['' # ?T @ ?post"
    using assms(7) by simp
  have 1: "CHR ''['' \<notin> set ?pre" using n by simp
  have 2: "CHR ''['' \<notin> set ?S" using n by simp
  have 3: "CHR ''['' \<notin> set ?mid" using n by simp
  have 4: "CHR ''['' \<notin> set ?T" using n by simp
  have 5: "CHR ''['' \<notin> set ?post" by simp
  have 6: "?S \<noteq> []" "?T \<noteq> []" "hd ?S \<noteq> hd ?T" by simp_all
  have "occurrences (CHR ''['' # ?S) out = 1"
    unfolding o using 1 2 3 4 5 6 by (rule occurrences_block(1))
  then show "occurrences (''[---'' @ bs @ '' '' @ u @ '' '' @ language @ ''---]'') out = 1"
    by simp
  have "occurrences (CHR ''['' # ?T) out = 1"
    unfolding o using 1 2 3 4 5 6 by (rule occurrences_block(2))
  then show "occurrences (''[/---'' @ be @ '' '' @ u @ '' '' @ language @ ''---]'') out = 1"
    by simp
qed

theorem insert_text_format_witness:
  "lang sample_env (''command_'' @ ''improve'') = Some ''improve''
   \<and> lang sample_env ''block_start'' = Some ''START''
   \<and> lang sample_env ''block_end'' = Some ''END''
   \<and> ''improve'' \<noteq> ''translate''
   \<and> CHR ''['' \<notin> set (''X'' @ ''Y'' @ ''START'' @ ''END'' @ ''IMPROVE'' @ [])
   \<and> insert_text sample_env fresh_world ''Y'' ''X'' ''improve''
       = (Inr (), fresh_world\<lparr>view_cursor := improve_output\<rparr>)
   \<and> take (length ''X'') improve_output = ''X''
   \<and> occurrences ''[---START IMPROVE ---]'' improve_output = 1
   \<and> occurrences ''[/---END IMPROVE ---]'' improve_output = 1"
proof -
  have h: "lang sample_env (''command_'' @ ''improve'') = Some ''improve''"
    "lang sample_env ''block_start'' = Some ''START''"
    "lang sample_env ''block_end'' = Some ''END''"
    by (simp_all add: sample_env_def sample_lang_def)
  have c: "''improve'' = ''translate'' \<longrightarrow> get_config fresh_world ''language'' (VStr []) = Inr (VStr [])"
    by simp
  have l: "[] = (if ''improve'' = ''translate'' then py_str (builtins sample_env) (VStr []) else [])"
    by simp
  have u: "''IMPROVE'' = str_upper (builtins sample_env) ''improve''"
    by (simp add: sample_env_def sample_builtins_def)
  have o: "improve_output = ''X'' @ [CHR 0x0A, CHR 0x0A]
               @ ''[---'' @ ''START'' @ '' '' @ ''IMPROVE'' @ '' '' @ [] @ ''---]'' @ [CHR 0x0A]
               @ ''Y'' @ [CHR 0x0A]
               @ ''[/---'' @ ''END'' @ '' '' @ ''IMPROVE'' @ '' '' @ [] @ ''---]'' @ [CHR 0x0A, CHR 0x0A]"
    by (simp add: improve_output_def)
  have n: "CHR ''['' \<notin> set (''X'' @ ''Y'' @ ''START'' @ ''END'' @ ''IMPROVE'' @ [])"
    by simp
  from insert_text_format [OF h c l u o] n
  have "insert_text sample_env fresh_world ''Y'' ''X'' ''improve''
       = (Inr (), fresh_world\<lparr>view_cursor := improve_output\<rparr>)
   \<and> take (length ''X'') improve_output = ''X''
   \<and> occurrences ''[---START IMPROVE ---]'' improve_output = 1
   \<and> occurrences ''[/---END IMPROVE ---]'' improve_output = 1"
    by simp
  with h n show ?thesis by simp
qed

text \<open>
  The count of claim C7 does not hold for every selection: the inserter copies the
  selection as it is, so a selection that already holds a start marker (the output of
  an earlier run, selected again) gives an output with two.
\<close>

theorem insert_text_two_markers_counterexample:
  "occurrences ''[---START IMPROVE ---]''
     (view_cursor (snd (insert_text sample_env fresh_world ''Y'' ''[---START IMPROVE ---]'' ''improve''))) = 2"
proof -
  have h: "lang sample_env ''command_improve'' = Some ''improve''"
    "lang sample_env ''block_start'' = Some ''START''"
    "lang sample_env ''block_end'' = Some ''END''"
    by (simp_all add: sample_env_def sample_lang_def)
  have u: "str_upper (builtins sample_env) ''improve'' = ''IMPROVE''"
    by (simp add: sample_env_def sample_builtins_def)
  have "view_cursor (snd (insert_text sample_env fresh_world ''Y'' ''[---START IMPROVE ---]'' ''improve''))
    = ''[---START IMPROVE ---]'' @ [CHR 0x0A, CHR 0x0A] @ ''[---START IMPROVE ---]'' @ [CHR 0x0A] @ ''Y''
      @ [CHR 0x0A] @ ''[/---END IMPROVE ---]'' @ [CHR 0x0A, CHR 0x0A]"
    by (simp add: insert_text_def lift_exn_def lang_item_Some h u start_marker_def end_marker_def
        newline_def)
  then show ?thesis by simp
qed

section \<open>Properties of the settings dialog\<close>

text \<open>\<open>int()\<close> accepts every non-empty text of at most 4300 decimal digits.\<close>

lemma decimal_not_int_space: "py_isdecimal_char c \<Longrightarrow> \<not> int_isspace c"
  by (auto simp: py_isdecimal_char_def py_decimals_def int_isspace_def int_whitespace_def)

lemma parse_digits_decimals:
  "list_all py_isdecimal_char s \<Longrightarrow> s \<noteq> [] \<or> prev \<Longrightarrow> \<exists>n. parse_digits acc prev s = Some n"
  by (induction s arbitrary: acc prev) auto

lemma int_strip_unchanged:
  assumes "s \<noteq> []" and "\<not> int_isspace (hd s)" and "\<not> int_isspace (last s)"
  shows "int_strip s = s"
proof -
  have "dropWhile int_isspace s = s"
    using assms(2) by (simp add: dropWhile_eq_self_iff)
  moreover have "dropWhile int_isspace (rev s) = rev s"
    using assms(1,3) by (simp add: dropWhile_eq_self_iff hd_rev)
  ultimately show ?thesis by (simp add: int_strip_def)
qed

lemma int_of_str_decimals:
  assumes "s \<noteq> []" and "list_all py_isdecimal_char s" and "length s \<le> 4300"
  shows "\<exists>n. int_of_str s = Inr (int n)"
proof -
  from assms have h: "py_isdecimal_char (hd s)" and l: "py_isdecimal_char (last s)"
    by (simp_all add: list_all_iff)
  then have st: "int_strip s = s"
    using assms(1) by (intro int_strip_unchanged decimal_not_int_space)
  from h have c: "hd s \<noteq> CHR ''+''" "hd s \<noteq> CHR ''-''"
    by (auto simp: py_isdecimal_char_def py_decimals_def)
  have r: "digit_run s = s"
    using assms(2) by (simp add: digit_run_def list_all_iff)
  have d: "count_digits s = length s"
    using assms(2) by (simp add: count_digits_def list_all_iff)
  obtain n where "parse_digits 0 False s = Some n"
    using parse_digits_decimals [OF assms(2), of False 0] assms(1) by auto
  then show ?thesis
    using c st r d assms(3) by (simp add: int_of_str_def Let_def)
qed

lemma settings_box_confirm:
  assumes "lang E ''openai_api_key'' = Some l1" and "lang E ''openai_model'' = Some l2"
    and "lang E ''max_tokens'' = Some l3" and "lang E ''temperature'' = Some l4"
    and "\<forall>k. settings_file w \<noteq> Holds_other k"
    and "settings_dialog E = Settings_ok kt mt mtt tt"
    and "float_of_str (builtins E) tt = Some x"
  shows "settings_box E w =
     (if py_isdigit mtt
      then bind_exn (int_of_str mtt) (\<lambda>n.
             Inr [(''openai_api_key'', VStr kt), (''model'', VStr mt), (''temperature'', VFloat x),
                  (''max_tokens'', VInt n)])
      else Inr [(''openai_api_key'', VStr kt), (''model'', VStr mt), (''temperature'', VFloat x)])"
  using assms
  by (cases "settings_file w")
    (simp_all add: settings_box_def bind_exn_def lang_item_Some get_config_def split: sum.splits)

lemma settings_box_cancel:
  assumes "lang E ''openai_api_key'' = Some l1" and "lang E ''openai_model'' = Some l2"
    and "lang E ''max_tokens'' = Some l3" and "lang E ''temperature'' = Some l4"
    and "get_config w ''openai_api_key'' (VStr []) = Inr k0"
    and "get_config w ''model'' (VStr ''gpt-4o-mini'') = Inr m0"
    and "get_config w ''max_tokens'' (VStr ''1000'') = Inr mt0"
    and "get_config w ''temperature'' (VStr ''0.5'') = Inr t0"
    and "settings_dialog E = Settings_cancel"
    and "py_float (builtins E) t0 = Inr x"
  shows "settings_box E w =
     Inr [(''openai_api_key'', VStr (py_str (builtins E) k0)),
          (''model'', VStr (py_str (builtins E) m0)),
          (''max_tokens'', VStr (py_str (builtins E) mt0)),
          (''temperature'', VFloat x)]"
  using assms by (simp add: settings_box_def bind_exn_def lang_item_Some)

text \<open>
  Claim C9, as the code has it. Whenever \<open>settings_box\<close> returns a record: if the
  dialog was confirmed, the temperature of the record is the field's text through
  \<open>float\<close>, and the record has the key \<open>max_tokens\<close>, with the field's text through
  \<open>int\<close>, if and only if that text \<open>isdigit()\<close>; if the dialog was cancelled, the
  record holds the stored API key, model and \<open>max_tokens\<close> (or their defaults) through
  \<open>str\<close>, and the stored temperature (or its default) through \<open>float\<close>.
  \<open>settings_box_confirm\<close> and \<open>settings_box_cancel\<close> say when it returns.
\<close>

theorem settings_box_record:
  assumes "settings_box E w = Inr result"
  shows "(settings_dialog E = Settings_ok kt mt mtt tt \<longrightarrow>
            (\<exists>x. float_of_str (builtins E) tt = Some x
                 \<and> map_of result ''temperature'' = Some (VFloat x))
            \<and> (py_isdigit mtt \<longrightarrow>
                 (\<exists>n. int_of_str mtt = Inr n \<and> map_of result ''max_tokens'' = Some (VInt n)))
            \<and> (\<not> py_isdigit mtt \<longrightarrow> map_of result ''max_tokens'' = None))
     \<and> (settings_dialog E = Settings_cancel \<longrightarrow>
            (\<exists>k0 m0 mt0 t0 x.
               get_config w ''openai_api_key'' (VStr []) = Inr k0
               \<and> get_config w ''model'' (VStr ''gpt-4o-mini'') = Inr m0
               \<and> get_config w ''max_tokens'' (VStr ''1000'') = Inr mt0
               \<and> get_config w ''temperature'' (VStr ''0.5'') = Inr t0
               \<and> py_float (builtins E) t0 = Inr x
               \<and> result = [(''openai_api_key'', VStr (py_str (builtins E) k0)),
                            (''model'', VStr (py_str (builtins E) m0)),
                            (''max_tokens'', VStr (py_str (builtins E) mt0)),
                            (''temperature'', VFloat x)]))"
  using assms
  by (auto simp: settings_box_def bind_exn_def Let_def
      split: sum.splits settings_action.splits option.splits if_splits)

lemma str_int_500: "str_int 500 = ''500''"
  by code_simp

lemma int_of_str_500: "int_of_str ''500'' = Inr 500"
  by (simp add: int_of_str_eval)

lemma sample_labels:
  "lang (sample_env\<lparr>settings_dialog := a\<rparr>) ''openai_api_key'' = Some ''API key''"
  "lang (sample_env\<lparr>settings_dialog := a\<rparr>) ''openai_model'' = Some ''Model''"
  "lang (sample_env\<lparr>settings_dialog := a\<rparr>) ''max_tokens'' = Some ''Max tokens''"
  "lang (sample_env\<lparr>settings_dialog := a\<rparr>) ''temperature'' = Some ''Temperature''"
  by (simp_all add: sample_env_def sample_lang_def)

lemma confirm_env_box:
  "settings_box confirm_env fresh_world =
     Inr [(''openai_api_key'', VStr ''sk-2''), (''model'', VStr ''gpt-4o''),
          (''temperature'', VFloat (7 / 10)), (''max_tokens'', VInt 500)]"
proof -
  have "settings_box confirm_env fresh_world =
     (if py_isdigit ''500''
      then bind_exn (int_of_str ''500'') (\<lambda>n.
             Inr [(''openai_api_key'', VStr ''sk-2''), (''model'', VStr ''gpt-4o''),
                  (''temperature'', VFloat (7 / 10)), (''max_tokens'', VInt n)])
      else Inr [(''openai_api_key'', VStr ''sk-2''), (''model'', VStr ''gpt-4o''),
                (''temperature'', VFloat (7 / 10))])"
    unfolding confirm_env_def
    by (rule settings_box_confirm [OF sample_labels, where tt = "''0.7''"])
      (simp_all add: fresh_world_def sample_env_def sample_builtins_def)
  then show ?thesis
    by (simp add: int_of_str_500 bind_exn_def py_isdigit_def py_isdigit_char_def
        py_isdecimal_char_def py_decimals_def)
qed

lemma nondigit_env_box:
  "settings_box nondigit_env fresh_world =
     Inr [(''openai_api_key'', VStr ''sk-2''), (''model'', VStr ''gpt-4o''),
          (''temperature'', VFloat (7 / 10))]"
proof -
  have "settings_box nondigit_env fresh_world =
     (if py_isdigit ''many''
      then bind_exn (int_of_str ''many'') (\<lambda>n.
             Inr [(''openai_api_key'', VStr ''sk-2''), (''model'', VStr ''gpt-4o''),
                  (''temperature'', VFloat (7 / 10)), (''max_tokens'', VInt n)])
      else Inr [(''openai_api_key'', VStr ''sk-2''), (''model'', VStr ''gpt-4o''),
                (''temperature'', VFloat (7 / 10))])"
    unfolding nondigit_env_def
    by (rule settings_box_confirm [OF sample_labels, where tt = "''0.7''"])
      (simp_all add: fresh_world_def sample_env_def sample_builtins_def)
  then show ?thesis
    by (simp add: py_isdigit_def py_isdigit_char_def py_isdecimal_char_def py_decimals_def)
qed

lemma cancel_stored_box:
  "settings_box sample_env stored_world =
     Inr [(''openai_api_key'', VStr ''sk-2''), (''model'', VStr ''gpt-4o''),
          (''max_tokens'', VStr ''500''), (''temperature'', VFloat (7 / 10))]"
proof -
  have e: "sample_env = sample_env\<lparr>settings_dialog := Settings_cancel\<rparr>"
    by (simp add: sample_env_def)
  have "settings_box (sample_env\<lparr>settings_dialog := Settings_cancel\<rparr>) stored_world =
     Inr [(''openai_api_key'', VStr (py_str (builtins (sample_env\<lparr>settings_dialog := Settings_cancel\<rparr>)) (VStr ''sk-2''))),
          (''model'', VStr (py_str (builtins (sample_env\<lparr>settings_dialog := Settings_cancel\<rparr>)) (VStr ''gpt-4o''))),
          (''max_tokens'', VStr (py_str (builtins (sample_env\<lparr>settings_dialog := Settings_cancel\<rparr>)) (VInt 500))),
          (''temperature'', VFloat (7 / 10))]"
    by (rule settings_box_cancel [OF sample_labels, where ?k0.0 = "VStr ''sk-2''"
          and ?m0.0 = "VStr ''gpt-4o''" and ?mt0.0 = "VInt 500" and ?t0.0 = "VFloat (7 / 10)"])
      (simp_all add: stored_world_def fresh_world_def get_config_def)
  then show ?thesis
    using e by (simp add: str_int_500)
qed

theorem settings_box_record_witness:
  "settings_box confirm_env fresh_world =
     Inr [(''openai_api_key'', VStr ''sk-2''), (''model'', VStr ''gpt-4o''),
          (''temperature'', VFloat (7 / 10)), (''max_tokens'', VInt 500)]
   \<and> settings_dialog confirm_env = Settings_ok ''sk-2'' ''gpt-4o'' ''500'' ''0.7''
   \<and> py_isdigit ''500''
   \<and> float_of_str (builtins confirm_env) ''0.7'' = Some (7 / 10)
   \<and> int_of_str ''500'' = Inr 500
   \<and> settings_box nondigit_env fresh_world =
     Inr [(''openai_api_key'', VStr ''sk-2''), (''model'', VStr ''gpt-4o''),
          (''temperature'', VFloat (7 / 10))]
   \<and> settings_dialog nondigit_env = Settings_ok ''sk-2'' ''gpt-4o'' ''many'' ''0.7''
   \<and> \<not> py_isdigit ''many''
   \<and> settings_box sample_env stored_world =
     Inr [(''openai_api_key'', VStr ''sk-2''), (''model'', VStr ''gpt-4o''),
          (''max_tokens'', VStr ''500''), (''temperature'', VFloat (7 / 10))]
   \<and> settings_dialog sample_env = Settings_cancel
   \<and> get_config stored_world ''temperature'' (VStr ''0.5'') = Inr (VFloat (7 / 10))
   \<and> py_float (builtins sample_env) (VFloat (7 / 10)) = Inr (7 / 10)"
proof -
  have d: "settings_dialog confirm_env = Settings_ok ''sk-2'' ''gpt-4o'' ''500'' ''0.7''"
    "settings_dialog nondigit_env = Settings_ok ''sk-2'' ''gpt-4o'' ''many'' ''0.7''"
    "settings_dialog sample_env = Settings_cancel"
    by (simp_all add: confirm_env_def nondigit_env_def sample_env_def)
  have g: "py_isdigit ''500''" "\<not> py_isdigit ''many''"
    by (simp_all add: py_isdigit_def py_isdigit_char_def py_isdecimal_char_def py_decimals_def)
  note a = settings_box_record [OF confirm_env_box, of "''sk-2''" "''gpt-4o''" "''500''" "''0.7''"]
  note b = settings_box_record [OF nondigit_env_box, of "''sk-2''" "''gpt-4o''" "''many''" "''0.7''"]
  from a d(1) g(1)
  have 1: "float_of_str (builtins confirm_env) ''0.7'' = Some (7 / 10)" "int_of_str ''500'' = Inr 500"
    by auto
  have 2: "get_config stored_world ''temperature'' (VStr ''0.5'') = Inr (VFloat (7 / 10))"
    by (simp add: stored_world_def fresh_world_def get_config_def)
  have 4: "py_float (builtins sample_env) (VFloat (7 / 10)) = Inr (7 / 10)"
    by simp
  from b d(2) g(2) have 3: "map_of [(''openai_api_key'', VStr ''sk-2''), (''model'', VStr ''gpt-4o''),
          (''temperature'', VFloat (7 / 10 :: real))] ''max_tokens'' = None"
    by blast
  show ?thesis
    using confirm_env_box nondigit_env_box cancel_stored_box d g 1 2 4 by (intro conjI)
qed

text \<open>
  The last part of claim C9 does not hold as stated: after a confirmed dialog has
  stored \<open>max_tokens\<close> as the integer 500, a cancelled dialog returns the string
  \<open>"500"\<close> for it, which is not the stored value (and \<open>trigger\<close> writes it back).
\<close>

theorem settings_box_cancel_counterexample:
  "get_config stored_world ''max_tokens'' (VStr ''1000'') = Inr (VInt 500)
   \<and> bind_exn (settings_box sample_env stored_world) (\<lambda>result. dict_item result ''max_tokens'')
       = Inr (VStr ''500'')
   \<and> VStr ''500'' \<noteq> (VInt 500 :: real pyval)"
proof (intro conjI)
  show "get_config stored_world ''max_tokens'' (VStr ''1000'') = Inr (VInt 500)"
    by (simp add: stored_world_def fresh_world_def get_config_def)
  show "bind_exn (settings_box sample_env stored_world) (\<lambda>result. dict_item result ''max_tokens'')
       = Inr (VStr ''500'')"
    by (simp only: cancel_stored_box) (simp add: bind_exn_def dict_item_def)
  show "VStr ''500'' \<noteq> (VInt 500 :: real pyval)"
    by simp
qed

section \<open>Properties of the command dispatcher\<close>

lemma py_strip_blank: "py_strip s = [] \<longleftrightarrow> list_all py_isspace s"
proof
  assume "py_strip s = []"
  then have a: "\<forall>x \<in> set (dropWhile py_isspace s). py_isspace x"
    by (simp add: py_strip_def)
  have "dropWhile py_isspace s = []"
  proof (rule ccontr)
    assume n: "dropWhile py_isspace s \<noteq> []"
    then have "\<not> py_isspace (hd (dropWhile py_isspace s))" by (rule hd_dropWhile)
    moreover have "hd (dropWhile py_isspace s) \<in> set (dropWhile py_isspace s)"
      using n by (rule hd_in_set)
    ultimately show False using a by blast
  qed
  then show "list_all py_isspace s" by (simp add: list_all_iff)
next
  assume "list_all py_isspace s"
  then have "dropWhile py_isspace s = []" by (simp add: list_all_iff)
  then show "py_strip s = []" by (simp only: py_strip_def rev.simps dropWhile.simps)
qed

lemma show_error_labels:
  "lang E ''error'' = Some title \<Longrightarrow> lang E k = Some m \<Longrightarrow>
   show_error E w k = (Inr (), w\<lparr>dialogs := dialogs w @ [(title, m)]\<rparr>)"
  by (simp add: show_error_def lift_exn_def lang_item_Some show_dialog_def)

lemma show_error_http_log: "http_log (snd (show_error E w k)) = http_log w"
  by (simp add: show_error_def lift_exn_def show_dialog_def split: sum.splits)

lemma guarded_blank:
  "document_open w \<Longrightarrow> py_strip (view_cursor w) = [] \<Longrightarrow>
   lang E ''error'' = Some title \<Longrightarrow> lang E ''no_text_selected'' = Some m \<Longrightarrow>
   guarded E w k = (Inr (), w\<lparr>dialogs := dialogs w @ [(title, m)]\<rparr>)"
  by (simp add: guarded_def show_error_labels)

lemma guarded_no_key:
  "document_open w \<Longrightarrow> py_strip (view_cursor w) \<noteq> [] \<Longrightarrow>
   get_config w ''openai_api_key'' (VStr []) = Inr (VStr []) \<Longrightarrow>
   lang E ''error'' = Some title \<Longrightarrow> lang E ''no_api_key'' = Some m \<Longrightarrow>
   guarded E w k = (Inr (), w\<lparr>dialogs := dialogs w @ [(title, m)]\<rparr>)"
  by (simp add: guarded_def lift_exn_def show_error_labels)

lemma guarded_no_key_http_log:
  "get_config w ''openai_api_key'' (VStr []) = Inr (VStr []) \<Longrightarrow>
   http_log (snd (guarded E w k)) = http_log w"
  by (simp add: guarded_def lift_exn_def show_error_http_log Let_def)

lemma trigger_guarded:
  assumes "command \<in> {''complete'', ''summarize'', ''improve'', ''expand'', ''translate''}"
  shows "\<exists>k. trigger E w command = guarded E w k"
proof -
  from assms have "command \<noteq> ''hello''" and "command \<noteq> ''settings''" by auto
  then show ?thesis by (auto simp: trigger_def)
qed

lemma and_then_fst_snd:
  "and_then r f = (case fst r of Inl e \<Rightarrow> (Inl e, snd r) | Inr a \<Rightarrow> f a (snd r))"
  by (cases r) (simp add: and_then_def split: sum.splits)

lemma get_config_view_cursor: "get_config (w\<lparr>view_cursor := s\<rparr>) k d = get_config w k d"
  by (simp add: get_config_def split: settings_file.splits)

lemma set_config_view_cursor:
  "set_config (w\<lparr>view_cursor := s\<rparr>) k v
     = (fst (set_config w k v), (snd (set_config w k v))\<lparr>view_cursor := s\<rparr>)"
  by (simp add: set_config_def load_for_update_def write_settings_def
      split: settings_file.splits write_outcome.splits)

lemma settings_box_view_cursor: "settings_box E (w\<lparr>view_cursor := s\<rparr>) = settings_box E w"
  by (simp add: settings_box_def get_config_view_cursor)

lemma settings_flow_view_cursor:
  "settings_flow E (w\<lparr>view_cursor := s\<rparr>)
     = (fst (settings_flow E w), (snd (settings_flow E w))\<lparr>view_cursor := s\<rparr>)"
  by (simp add: settings_flow_def lift_exn_def and_then_fst_snd settings_box_view_cursor
      set_config_view_cursor split: sum.splits)

lemma set_config_keeps:
  "dialogs (snd (set_config w k v)) = dialogs w"
  "http_log (snd (set_config w k v)) = http_log w"
  "selection_range (snd (set_config w k v)) = selection_range w"
  by (simp_all add: set_config_def write_settings_def split: sum.splits write_outcome.splits)

lemma settings_flow_keeps:
  "dialogs (snd (settings_flow E w)) = dialogs w"
  "http_log (snd (settings_flow E w)) = http_log w"
  "selection_range (snd (settings_flow E w)) = selection_range w"
  by (simp_all add: settings_flow_def lift_exn_def and_then_fst_snd set_config_keeps
      split: sum.splits)

lemma trigger_settings:
  "trigger E w ''settings'' =
     (case fst (settings_flow E w) of
        Inl e \<Rightarrow> (Inr (), append_error (snd (settings_flow E w)) e)
      | Inr u \<Rightarrow> (Inr (), snd (settings_flow E w)))"
  by (cases "settings_flow E w") (simp add: trigger_def split: sum.splits)

lemma trigger_settings_view_cursor:
  "trigger E (w\<lparr>view_cursor := s\<rparr>) ''settings''
     = (fst (trigger E w ''settings''), (snd (trigger E w ''settings''))\<lparr>view_cursor := s\<rparr>)"
  by (simp add: trigger_settings settings_flow_view_cursor append_error_def split: sum.splits)

lemma trigger_settings_keeps:
  "fst (trigger E w ''settings'') = Inr ()"
  "dialogs (snd (trigger E w ''settings'')) = dialogs w"
  "http_log (snd (trigger E w ''settings'')) = http_log w"
  by (simp_all add: trigger_settings settings_flow_keeps append_error_def split: sum.splits)

lemma py_repr_max_tokens: "py_repr ''max_tokens'' = [CHR 0x27] @ ''max_tokens'' @ [CHR 0x27]"
  by (simp add: py_repr_def repr_char_def py_printable_def Let_def)

lemma confirm_flow: "settings_flow confirm_env fresh_world = (Inr (), stored_world)"
  apply (simp only: settings_flow_def confirm_env_box)
  apply (simp add: confirm_env_def sample_env_def sample_lang_def lang_item_def lift_exn_def
      and_then_def dict_item_def set_config_def load_for_update_def write_settings_def
      fresh_world_def stored_world_def)
  done

lemma nondigit_flow:
  "settings_flow nondigit_env fresh_world =
     (Inl (KeyError (py_repr ''max_tokens'')),
      fresh_world\<lparr>settings_file :=
        Holds_object [(''openai_api_key'', VStr ''sk-2''), (''model'', VStr ''gpt-4o'')]\<rparr>)"
  apply (simp only: settings_flow_def nondigit_env_box)
  apply (simp add: nondigit_env_def sample_env_def sample_lang_def lang_item_def lift_exn_def
      and_then_def dict_item_def set_config_def load_for_update_def write_settings_def
      fresh_world_def)
  done

text \<open>
  Claim C2, as the code has it. For each of the five text commands, when the
  configured API key is the empty string (stored so, or not stored), \<open>trigger\<close> makes
  no HTTP call; and when, moreover, a document is open and the selection is not blank,
  it shows exactly one dialog, the \<open>no_api_key\<close> error, and returns.
\<close>

theorem trigger_empty_api_key:
  assumes "command \<in> {''complete'', ''summarize'', ''improve'', ''expand'', ''translate''}"
    and "get_config w ''openai_api_key'' (VStr []) = Inr (VStr [])"
  shows "http_log (snd (trigger E w command)) = http_log w
     \<and> (document_open w \<and> py_strip (view_cursor w) \<noteq> []
          \<and> lang E ''error'' = Some title \<and> lang E ''no_api_key'' = Some m \<longrightarrow>
        trigger E w command = (Inr (), w\<lparr>dialogs := dialogs w @ [(title, m)]\<rparr>))"
proof -
  obtain k where k: "trigger E w command = guarded E w k"
    using trigger_guarded [OF assms(1)] by blast
  show ?thesis
    unfolding k using assms(2) by (simp add: guarded_no_key_http_log guarded_no_key)
qed

theorem trigger_empty_api_key_witness:
  "''complete'' \<in> {''complete'', ''summarize'', ''improve'', ''expand'', ''translate''}
   \<and> get_config fresh_world ''openai_api_key'' (VStr []) = Inr (VStr [])
   \<and> document_open fresh_world \<and> py_strip (view_cursor fresh_world) \<noteq> []
   \<and> lang sample_env ''error'' = Some ''Error''
   \<and> lang sample_env ''no_api_key'' = Some ''No API key''
   \<and> trigger sample_env fresh_world ''complete''
       = (Inr (), fresh_world\<lparr>dialogs := [(''Error'', ''No API key'')]\<rparr>)
   \<and> http_log (snd (trigger sample_env fresh_world ''complete'')) = []"
proof -
  have c: "''complete'' \<in> {''complete'', ''summarize'', ''improve'', ''expand'', ''translate''}"
    by simp
  have g: "get_config fresh_world ''openai_api_key'' (VStr []) = Inr (VStr [])"
    by (simp add: get_config_def fresh_world_def)
  have d: "document_open fresh_world" "py_strip (view_cursor fresh_world) \<noteq> []"
    by (simp_all add: fresh_world_def py_strip_def py_isspace_def py_whitespace_def)
  have l: "lang sample_env ''error'' = Some ''Error''"
    "lang sample_env ''no_api_key'' = Some ''No API key''"
    by (simp_all add: sample_env_def sample_lang_def)
  have e: "dialogs fresh_world = []" "http_log fresh_world = []"
    by (simp_all add: fresh_world_def)
  from trigger_empty_api_key [OF c g, of sample_env "''Error''" "''No API key''"] d l e
  have "trigger sample_env fresh_world ''complete''
       = (Inr (), fresh_world\<lparr>dialogs := [(''Error'', ''No API key'')]\<rparr>)"
    "http_log (snd (trigger sample_env fresh_world ''complete'')) = []"
    by simp_all
  with c g d l show ?thesis by (intro conjI)
qed

text \<open>
  The dialog of claim C2 is not shown for every state: the check of the selection
  comes first (source lines 143 to 146), so with an empty API key and a blank
  selection \<open>trigger\<close> shows the \<open>no_text_selected\<close> error and never the
  \<open>no_api_key\<close> one.
\<close>

theorem trigger_empty_api_key_blank_counterexample:
  "get_config blank_world ''openai_api_key'' (VStr []) = Inr (VStr [])
   \<and> trigger sample_env blank_world ''complete''
       = (Inr (), blank_world\<lparr>dialogs := [(''Error'', ''No text selected'')]\<rparr>)
   \<and> (''Error'', ''No API key'') \<notin> set (dialogs (snd (trigger sample_env blank_world ''complete'')))"
proof -
  have g: "get_config blank_world ''openai_api_key'' (VStr []) = Inr (VStr [])"
    by (simp add: get_config_def blank_world_def fresh_world_def)
  have t: "trigger sample_env blank_world ''complete''
       = (Inr (), blank_world\<lparr>dialogs := [(''Error'', ''No text selected'')]\<rparr>)"
    by (simp add: trigger_def guarded_def show_error_def lift_exn_def lang_item_def show_dialog_def
        sample_env_def sample_lang_def blank_world_def fresh_world_def py_strip_def py_isspace_def
        py_whitespace_def)
  show ?thesis
    using g t by simp
qed

text \<open>
  Claim C3: for each of the five commands that need a selection, with a document open
  and a selection that is empty or holds only whitespace, \<open>trigger\<close> shows the
  \<open>no_text_selected\<close> error dialog and makes no HTTP call. The \<open>settings\<close> command
  has no such requirement: it shows no dialog, returns normally, and does with any
  other selection what it does with the blank one.
\<close>

theorem trigger_blank_selection:
  assumes "command \<in> {''complete'', ''summarize'', ''improve'', ''expand'', ''translate''}"
    and "document_open w"
    and "list_all py_isspace (view_cursor w)"
    and "lang E ''error'' = Some title"
    and "lang E ''no_text_selected'' = Some m"
  shows "trigger E w command = (Inr (), w\<lparr>dialogs := dialogs w @ [(title, m)]\<rparr>)
     \<and> http_log (snd (trigger E w command)) = http_log w
     \<and> fst (trigger E w ''settings'') = Inr ()
     \<and> dialogs (snd (trigger E w ''settings'')) = dialogs w
     \<and> trigger E (w\<lparr>view_cursor := s\<rparr>) ''settings''
         = (fst (trigger E w ''settings''), (snd (trigger E w ''settings''))\<lparr>view_cursor := s\<rparr>)"
proof -
  obtain k where k: "trigger E w command = guarded E w k"
    using trigger_guarded [OF assms(1)] by blast
  have "py_strip (view_cursor w) = []"
    using assms(3) by (simp add: py_strip_blank)
  then have "guarded E w k = (Inr (), w\<lparr>dialogs := dialogs w @ [(title, m)]\<rparr>)"
    using assms(2,4,5) by (simp add: guarded_blank)
  then show ?thesis
    unfolding k by (simp add: trigger_settings_keeps trigger_settings_view_cursor)
qed

theorem trigger_blank_selection_witness:
  "''complete'' \<in> {''complete'', ''summarize'', ''improve'', ''expand'', ''translate''}
   \<and> document_open blank_world
   \<and> list_all py_isspace (view_cursor blank_world)
   \<and> lang sample_env ''error'' = Some ''Error''
   \<and> lang sample_env ''no_text_selected'' = Some ''No text selected''
   \<and> trigger sample_env blank_world ''complete''
       = (Inr (), blank_world\<lparr>dialogs := [(''Error'', ''No text selected'')]\<rparr>)
   \<and> http_log (snd (trigger sample_env blank_world ''complete'')) = []
   \<and> trigger confirm_env blank_world ''settings''
       = (Inr (), stored_world\<lparr>view_cursor := [CHR '' '', CHR 0x0A]\<rparr>)"
proof -
  have c: "''complete'' \<in> {''complete'', ''summarize'', ''improve'', ''expand'', ''translate''}"
    by simp
  have d: "document_open blank_world" "list_all py_isspace (view_cursor blank_world)"
    by (simp_all add: blank_world_def fresh_world_def py_isspace_def py_whitespace_def)
  have l: "lang sample_env ''error'' = Some ''Error''"
    "lang sample_env ''no_text_selected'' = Some ''No text selected''"
    by (simp_all add: sample_env_def sample_lang_def)
  have e: "dialogs blank_world = []" "http_log blank_world = []"
    by (simp_all add: blank_world_def fresh_world_def)
  from trigger_blank_selection [OF c d l, of "[]"] e
  have 1: "trigger sample_env blank_world ''complete''
       = (Inr (), blank_world\<lparr>dialogs := [(''Error'', ''No text selected'')]\<rparr>)"
    "http_log (snd (trigger sample_env blank_world ''complete'')) = []"
    by simp_all
  have t: "trigger confirm_env fresh_world ''settings'' = (Inr (), stored_world)"
    by (simp add: trigger_def confirm_flow)
  have "trigger confirm_env blank_world ''settings''
       = (Inr (), stored_world\<lparr>view_cursor := [CHR '' '', CHR 0x0A]\<rparr>)"
    unfolding blank_world_def by (simp add: trigger_settings_view_cursor t)
  with c d l 1 show ?thesis by (intro conjI)
qed

text \<open>
  What the code keeps of claim C8. Every exception \<open>e\<close> raised in the \<open>settings\<close> flow
  is caught by \<open>trigger\<close>, which appends \<open>:error: \<close> and \<open>str(e)\<close> to the string of
  the first range of the selection, shows no dialog and returns normally. The blank
  selection and the empty API key of the other commands, and every exception raised
  inside the \<open>try\<close> of \<open>process_text\<close> (by \<open>urlopen\<close> or while the response is
  parsed) surface in a modal error dialog.
\<close>

lemma trigger_settings_error_inline:
  "(settings_flow E w = (Inl e, w1) \<longrightarrow>
      trigger E w ''settings''
        = (Inr (), w1\<lparr>selection_range := selection_range w @ '':error: '' @ str_exn e\<rparr>)
      \<and> dialogs w1 = dialogs w)
   \<and> (command \<in> {''complete'', ''summarize'', ''improve'', ''expand'', ''translate''}
        \<and> document_open w \<and> py_strip (view_cursor w) = []
        \<and> lang E ''error'' = Some title \<and> lang E ''no_text_selected'' = Some m1 \<longrightarrow>
      trigger E w command = (Inr (), w\<lparr>dialogs := dialogs w @ [(title, m1)]\<rparr>))
   \<and> (command \<in> {''complete'', ''summarize'', ''improve'', ''expand'', ''translate''}
        \<and> document_open w \<and> py_strip (view_cursor w) \<noteq> []
        \<and> get_config w ''openai_api_key'' (VStr []) = Inr (VStr [])
        \<and> lang E ''error'' = Some title \<and> lang E ''no_api_key'' = Some m2 \<longrightarrow>
      trigger E w command = (Inr (), w\<lparr>dialogs := dialogs w @ [(title, m2)]\<rparr>))
   \<and> (lang E ''error'' = Some title \<and> urlopen (endpoint E req) = Inl x \<longrightarrow>
      round_trip E w req =
        (Inr None, w\<lparr>http_log := http_log w @ [req], dialogs := dialogs w @ [(title, str_exn x)]\<rparr>))
   \<and> (lang E ''error'' = Some title \<and> endpoint E req = Reply 200 msg body
        \<and> bind_exn (json_loads (builtins E) body) response_content = Inl x \<longrightarrow>
      round_trip E w req =
        (Inr None, w\<lparr>http_log := http_log w @ [req], dialogs := dialogs w @ [(title, str_exn x)]\<rparr>))"
proof (intro conjI impI)
  assume f: "settings_flow E w = (Inl e, w1)"
  have "dialogs (snd (settings_flow E w)) = dialogs w"
    "selection_range (snd (settings_flow E w)) = selection_range w"
    by (rule settings_flow_keeps)+
  with f have k: "dialogs w1 = dialogs w" "selection_range w1 = selection_range w"
    by simp_all
  from k show "dialogs w1 = dialogs w" by simp
  from f k show "trigger E w ''settings''
        = (Inr (), w1\<lparr>selection_range := selection_range w @ '':error: '' @ str_exn e\<rparr>)"
    by (simp add: trigger_def append_error_def)
next
  assume a: "command \<in> {''complete'', ''summarize'', ''improve'', ''expand'', ''translate''}
        \<and> document_open w \<and> py_strip (view_cursor w) = []
        \<and> lang E ''error'' = Some title \<and> lang E ''no_text_selected'' = Some m1"
  then obtain k where "trigger E w command = guarded E w k"
    using trigger_guarded by blast
  with a show "trigger E w command = (Inr (), w\<lparr>dialogs := dialogs w @ [(title, m1)]\<rparr>)"
    by (simp add: guarded_blank)
next
  assume a: "command \<in> {''complete'', ''summarize'', ''improve'', ''expand'', ''translate''}
        \<and> document_open w \<and> py_strip (view_cursor w) \<noteq> []
        \<and> get_config w ''openai_api_key'' (VStr []) = Inr (VStr [])
        \<and> lang E ''error'' = Some title \<and> lang E ''no_api_key'' = Some m2"
  then obtain k where "trigger E w command = guarded E w k"
    using trigger_guarded by blast
  with a show "trigger E w command = (Inr (), w\<lparr>dialogs := dialogs w @ [(title, m2)]\<rparr>)"
    by (simp add: guarded_no_key)
next
  assume "lang E ''error'' = Some title \<and> urlopen (endpoint E req) = Inl x"
  then show "round_trip E w req =
        (Inr None, w\<lparr>http_log := http_log w @ [req], dialogs := dialogs w @ [(title, str_exn x)]\<rparr>)"
    by (simp add: round_trip_raised)
next
  assume "lang E ''error'' = Some title \<and> endpoint E req = Reply 200 msg body
        \<and> bind_exn (json_loads (builtins E) body) response_content = Inl x"
  then show "round_trip E w req =
        (Inr None, w\<lparr>http_log := http_log w @ [req], dialogs := dialogs w @ [(title, str_exn x)]\<rparr>)"
    by (metis round_trip_unparsed)
qed

lemma trigger_settings_error_inline_example:
  "settings_flow nondigit_env fresh_world =
     (Inl (KeyError (py_repr ''max_tokens'')),
      fresh_world\<lparr>settings_file :=
        Holds_object [(''openai_api_key'', VStr ''sk-2''), (''model'', VStr ''gpt-4o'')]\<rparr>)
   \<and> trigger nondigit_env fresh_world ''settings'' =
     (Inr (),
      fresh_world\<lparr>settings_file :=
          Holds_object [(''openai_api_key'', VStr ''sk-2''), (''model'', VStr ''gpt-4o'')],
        selection_range := ''X:error: '' @ [CHR 0x27] @ ''max_tokens'' @ [CHR 0x27]\<rparr>)
   \<and> py_strip (view_cursor blank_world) = []
   \<and> trigger sample_env blank_world ''complete''
       = (Inr (), blank_world\<lparr>dialogs := [(''Error'', ''No text selected'')]\<rparr>)
   \<and> py_strip (view_cursor fresh_world) \<noteq> []
   \<and> get_config fresh_world ''openai_api_key'' (VStr []) = Inr (VStr [])
   \<and> trigger sample_env fresh_world ''complete''
       = (Inr (), fresh_world\<lparr>dialogs := [(''Error'', ''No API key'')]\<rparr>)
   \<and> urlopen (endpoint failing_env (sample_request ''hola''))
       = Inl (HTTPError 500 ''Internal Server Error'')
   \<and> round_trip failing_env keyed_world (sample_request ''hola'') =
       (Inr None, keyed_world\<lparr>http_log := [sample_request ''hola''],
          dialogs := [(''Error'', ''HTTP Error 500: Internal Server Error'')]\<rparr>)
   \<and> bind_exn (json_loads (builtins garbled_env) ''<html>'') response_content
       = Inl (ValueError ''Expecting value: line 1 column 1 (char 0)'')
   \<and> round_trip garbled_env keyed_world (sample_request ''hola'') =
       (Inr None, keyed_world\<lparr>http_log := [sample_request ''hola''],
          dialogs := [(''Error'', ''Expecting value: line 1 column 1 (char 0)'')]\<rparr>)"
proof -
  note t = trigger_settings_error_inline
  have c: "''complete'' \<in> {''complete'', ''summarize'', ''improve'', ''expand'', ''translate''}"
    by simp
  have l: "lang sample_env ''error'' = Some ''Error''"
    "lang sample_env ''no_text_selected'' = Some ''No text selected''"
    "lang sample_env ''no_api_key'' = Some ''No API key''"
    "lang failing_env ''error'' = Some ''Error''"
    "lang garbled_env ''error'' = Some ''Error''"
    by (simp_all add: failing_env_def garbled_env_def sample_env_def sample_lang_def)
  have b: "document_open blank_world" "py_strip (view_cursor blank_world) = []"
    "dialogs blank_world = []"
    by (simp_all add: blank_world_def fresh_world_def py_strip_def py_isspace_def py_whitespace_def)
  have f: "document_open fresh_world" "py_strip (view_cursor fresh_world) \<noteq> []"
    "dialogs fresh_world = []" "selection_range fresh_world = ''X''"
    "get_config fresh_world ''openai_api_key'' (VStr []) = Inr (VStr [])"
    by (simp_all add: fresh_world_def py_strip_def py_isspace_def py_whitespace_def get_config_def)
  have k: "dialogs keyed_world = []" "http_log keyed_world = []"
    by (simp_all add: keyed_world_def fresh_world_def)
  have u: "urlopen (endpoint failing_env (sample_request ''hola''))
       = Inl (HTTPError 500 ''Internal Server Error'')"
    by (simp add: failing_env_def urlopen_def)
  have g: "endpoint garbled_env (sample_request ''hola'') = Reply 200 ''OK'' ''<html>''"
    "bind_exn (json_loads (builtins garbled_env) ''<html>'') response_content
       = Inl (ValueError ''Expecting value: line 1 column 1 (char 0)'')"
    by (simp_all add: garbled_env_def sample_env_def sample_builtins_def hello_body_def
        null_body_def bind_exn_def)
  from t [of nondigit_env fresh_world] nondigit_flow f(4)
  have 1: "trigger nondigit_env fresh_world ''settings'' =
     (Inr (),
      fresh_world\<lparr>settings_file :=
          Holds_object [(''openai_api_key'', VStr ''sk-2''), (''model'', VStr ''gpt-4o'')],
        selection_range := ''X:error: '' @ [CHR 0x27] @ ''max_tokens'' @ [CHR 0x27]\<rparr>)"
    by (simp add: py_repr_max_tokens)
  from t [where E = sample_env and w = blank_world and command = "''complete''"
      and title = "''Error''" and ?m1.0 = "''No text selected''"] c b l
  have 2: "trigger sample_env blank_world ''complete''
       = (Inr (), blank_world\<lparr>dialogs := [(''Error'', ''No text selected'')]\<rparr>)"
    by simp
  from t [where E = sample_env and w = fresh_world and command = "''complete''"
      and title = "''Error''" and ?m2.0 = "''No API key''"] c f l
  have 3: "trigger sample_env fresh_world ''complete''
       = (Inr (), fresh_world\<lparr>dialogs := [(''Error'', ''No API key'')]\<rparr>)"
    by simp
  from t [where E = failing_env and w = keyed_world and title = "''Error''"
      and req = "sample_request ''hola''" and x = "HTTPError 500 ''Internal Server Error''"] u l k
  have 4: "round_trip failing_env keyed_world (sample_request ''hola'') =
       (Inr None, keyed_world\<lparr>http_log := [sample_request ''hola''],
          dialogs := [(''Error'', ''HTTP Error 500: Internal Server Error'')]\<rparr>)"
    by (simp add: str_nat_500)
  from t [where E = garbled_env and w = keyed_world and title = "''Error''"
      and req = "sample_request ''hola''"
      and x = "ValueError ''Expecting value: line 1 column 1 (char 0)''"
      and msg = "''OK''" and body = "''<html>''"] g l k
  have 5: "round_trip garbled_env keyed_world (sample_request ''hola'') =
       (Inr None, keyed_world\<lparr>http_log := [sample_request ''hola''],
          dialogs := [(''Error'', ''Expecting value: line 1 column 1 (char 0)'')]\<rparr>)"
    by simp
  show ?thesis
    using nondigit_flow 1 b(2) 2 f(2,5) 3 u 4 g(2) 5 by (intro conjI)
qed

text \<open>
  Claim C8 says that every failure outside the \<open>settings\<close> flow surfaces in a modal
  error dialog, and the docstring of \<open>trigger\<close> says that an error message is shown
  when a command fails. With a \<open>max_tokens\<close> setting that \<open>int()\<close> rejects,
  \<open>process_text\<close> raises before its \<open>try\<close>. For \<open>translate\<close> the handler of source
  lines 134 to 136 catches the exception and means to report it, but \<open>selection\<close> is
  the string of the view cursor by then (line 112), so \<open>selection.getByIndex(0)\<close>
  raises inside the handler; the four text commands have no handler. In both cases
  \<open>trigger\<close> ends with an exception: no dialog is shown and nothing is written into
  the selection.
\<close>

theorem trigger_error_unreported:
  "fst (trigger translate_env lots_world ''translate'')
     = Inl (AttributeError (py_repr ''str'' @ '' object has no attribute '' @ py_repr ''getByIndex''))
   \<and> dialogs (snd (trigger translate_env lots_world ''translate'')) = []
   \<and> selection_range (snd (trigger translate_env lots_world ''translate'')) = ''X''
   \<and> fst (trigger sample_env lots_world ''complete'')
     = Inl (ValueError (''invalid literal for int() with base 10: '' @ py_repr ''lots''))
   \<and> dialogs (snd (trigger sample_env lots_world ''complete'')) = []
   \<and> selection_range (snd (trigger sample_env lots_world ''complete'')) = ''X''"
  by (simp add: trigger_def guarded_def translate_flow_def translation_box_def
      process_and_insert_def process_text_def prompt_map_def build_request_def
      lift_exn_def and_then_def bind_exn_def lang_item_def dict_item_def get_config_def
      set_config_def load_for_update_def write_settings_def int_of_str_eval invalid_literal_def
      py_strip_def py_isspace_def py_whitespace_def
      translate_env_def sample_env_def sample_lang_def sample_builtins_def lots_world_def
      fresh_world_def)

end
